theory Spec2Isabelle
  imports Complex_Main "HOL-Library.AList"
begin

section \<open>Numbers\<close>

text \<open>
  The program computes with JavaScript numbers, which are IEEE binary64 doubles. Two
  models stand side by side. The sizing and profit formulas are modelled on exact reals,
  operation by operation: there the question is which arithmetic the code performs, and
  binary rounding error, \<open>NaN\<close> and overflow are left out. Price rounding is modelled a
  second time on doubles (\<open>binary64\<close> below, with \<open>roundToDecimal64\<close> and
  \<open>roundPrice64\<close>), every product and quotient rounded to the nearest double as the
  machine does, because whether rounding twice gives the same price is decided by exactly
  that error. Where the source uses \<open>Infinity\<close> as a value (the default upper quantity
  bound) it is \<open>None\<close> of an option type. An \<open>undefined\<close> property is \<open>None\<close>
  as well.
\<close>

text \<open>\<open>Math.round\<close>: the nearest integer, a tie going up.\<close>

definition js_round :: "real \<Rightarrow> real" where
  "js_round x = of_int \<lfloor>x + 1 / 2\<rfloor>"



text \<open>\<open>a || b\<close> on a number that may be undefined: zero and undefined are falsy.\<close>

definition js_or :: "real option \<Rightarrow> real \<Rightarrow> real" where
  "js_or a b = (case a of None \<Rightarrow> b | Some x \<Rightarrow> if x = 0 then b else x)"

section \<open>utils/helpers.js\<close>

text \<open>
  \<^verbatim>\<open>roundToDecimal(value, decimals)\<close>:
  \<^verbatim>\<open>factor = Math.pow(10, decimals); return Math.round(value * factor) / factor\<close>,
  here on exact reals. The guard on \<open>NaN\<close>, \<open>null\<close> and \<open>undefined\<close> has no
  counterpart on reals.
\<close>

definition roundToDecimal :: "real \<Rightarrow> real \<Rightarrow> real" where
  "roundToDecimal v decimals =
     (let factor = 10 powr decimals in js_round (v * factor) / factor)"

text \<open>
  \<^verbatim>\<open>roundQuantity(quantity, tickSize)\<close>: returns the quantity as it is when
  \<^verbatim>\<open>!tickSize || tickSize <= 0\<close>, and otherwise rounds it to
  \<^verbatim>\<open>Math.abs(Math.log10(tickSize))\<close> decimals.
\<close>

definition roundQuantity :: "real \<Rightarrow> real \<Rightarrow> real" where
  "roundQuantity qty tick =
     (if tick = 0 \<or> tick \<le> 0 then qty
      else let precision = \<bar>log 10 tick\<bar> in roundToDecimal qty precision)"

text \<open>\<^verbatim>\<open>roundPrice(price, pricePrecision)\<close>: eight decimals when the precision is undefined.\<close>

definition roundPrice :: "real \<Rightarrow> real option \<Rightarrow> real" where
  "roundPrice price prec =
     (case prec of None \<Rightarrow> roundToDecimal price 8 | Some d \<Rightarrow> roundToDecimal price d)"




text \<open>
  \<^verbatim>\<open>isValidNumber(value)\<close>: a number that is not \<open>NaN\<close>, is finite and is
  positive. On reals only the last test remains.
\<close>

definition isValidNumber :: "real \<Rightarrow> bool" where
  "isValidNumber v = (v > 0)"

definition calculatePnLPercent :: "real \<Rightarrow> real \<Rightarrow> string \<Rightarrow> real" where
  "calculatePnLPercent entry exit dir =
     (if \<not> isValidNumber entry \<or> \<not> isValidNumber exit then 0
      else if dir = ''LONG'' then ((exit - entry) / entry) * 100
      else if dir = ''SHORT'' then ((entry - exit) / entry) * 100
      else 0)"

definition calculatePnL :: "real \<Rightarrow> real \<Rightarrow> real \<Rightarrow> string \<Rightarrow> real" where
  "calculatePnL entry exit qty dir =
     (if \<not> isValidNumber entry \<or> \<not> isValidNumber exit \<or> \<not> isValidNumber qty then 0
      else if dir = ''LONG'' then (exit - entry) * qty
      else if dir = ''SHORT'' then (entry - exit) * qty
      else 0)"

section \<open>config/settings.js\<close>

text \<open>
  The configuration object, flattened. The numbers come from \<^verbatim>\<open>parseFloat\<close> and
  \<^verbatim>\<open>parseInt\<close> of environment variables.
\<close>

record config =
  risk_percentage :: real
  risk_leverage :: int
  risk_takeProfitPercent :: real
  risk_stopLossPercent :: real
  trading_allowedSymbols :: "string list"
  trading_maxDailyTrades :: int
  trading_maxOpenPositions :: int
  trading_dryRun :: bool
  tradingHours_enabled :: bool
  tradingHours_startHour :: int
  tradingHours_endHour :: int
  bybit_positionMode :: string

text \<open>The checks the settings module runs when it is loaded; it throws when one fails.\<close>

definition config_valid :: "config \<Rightarrow> bool" where
  "config_valid cfg =
     (\<not> (risk_percentage cfg \<le> 0 \<or> risk_percentage cfg > 100) \<and>
      \<not> (risk_leverage cfg \<le> 0 \<or> risk_leverage cfg > 100) \<and>
      \<not> (trading_maxDailyTrades cfg \<le> 0) \<and>
      \<not> (trading_maxOpenPositions cfg \<le> 0) \<and>
      \<not> (tradingHours_startHour cfg < 0 \<or> tradingHours_startHour cfg > 23) \<and>
      \<not> (tradingHours_endHour cfg < 0 \<or> tradingHours_endHour cfg > 23))"

text \<open>The configuration every variable takes when the environment sets none.\<close>

definition default_config :: config where
  "default_config =
     \<lparr>risk_percentage = 5 / 2, risk_leverage = 20,
      risk_takeProfitPercent = 1 / 2, risk_stopLossPercent = 3 / 10,
      trading_allowedSymbols = [''ADAUSDT'', ''TAOUSDT'', ''UNIUSDT''],
      trading_maxDailyTrades = 20, trading_maxOpenPositions = 3,
      trading_dryRun = False,
      tradingHours_enabled = False,
      tradingHours_startHour = 6, tradingHours_endHour = 22,
      bybit_positionMode = ''ONE_WAY''\<rparr>"

section \<open>services/risk.service.js\<close>

text \<open>
  What \<^verbatim>\<open>getSymbolInfo\<close> returns for an instrument. A field is \<open>None\<close> when the
  object passed to the risk calculation lacks it (its default argument is \<^verbatim>\<open>{}\<close>).
\<close>

record symbolInfo =
  tickSize :: "real option"
  minQty :: "real option"
  maxQty :: "real option"
  pricePrecision :: "real option"
  status :: string

record positionParams =
  pp_entryPrice :: real
  pp_quantity :: real
  pp_positionSize :: real
  pp_leverage :: int
  pp_requiredMargin :: real
  pp_stopLoss :: real
  pp_takeProfit :: real
  pp_riskAmount :: real
  pp_direction :: string

text \<open>The errors the calculation throws, each standing for its message.\<close>

datatype risk_error =
    InvalidBalance real
  | InvalidEntryPrice real
  | InvalidDirection string
  | StopLossDistanceNotPositive
  | InsufficientBalance real real

text \<open>Steps 1 to 7 of \<^verbatim>\<open>calculatePositionParameters\<close>, one definition for each local.\<close>

definition riskAmount :: "config \<Rightarrow> real \<Rightarrow> real" where
  "riskAmount cfg balance = balance * (risk_percentage cfg / 100)"

definition stopLossPrice :: "config \<Rightarrow> real \<Rightarrow> string \<Rightarrow> real" where
  "stopLossPrice cfg entryPrice dir =
     (if dir = ''LONG'' then entryPrice * (1 - risk_stopLossPercent cfg / 100)
      else entryPrice * (1 + risk_stopLossPercent cfg / 100))"

definition stopLossDistance :: "config \<Rightarrow> real \<Rightarrow> string \<Rightarrow> real" where
  "stopLossDistance cfg entryPrice dir = \<bar>entryPrice - stopLossPrice cfg entryPrice dir\<bar>"

text \<open>The notional size from the risk formula, before the margin check.\<close>

definition riskPositionSize :: "config \<Rightarrow> real \<Rightarrow> real \<Rightarrow> string \<Rightarrow> real" where
  "riskPositionSize cfg balance entryPrice dir =
     (riskAmount cfg balance / stopLossDistance cfg entryPrice dir) * entryPrice"

definition requiredMargin :: "config \<Rightarrow> real \<Rightarrow> real \<Rightarrow> string \<Rightarrow> real" where
  "requiredMargin cfg balance entryPrice dir =
     riskPositionSize cfg balance entryPrice dir / of_int (risk_leverage cfg)"

text \<open>The size after the margin check: the whole balance at full leverage when the margin exceeds it.\<close>

definition positionSize :: "config \<Rightarrow> real \<Rightarrow> real \<Rightarrow> string \<Rightarrow> real" where
  "positionSize cfg balance entryPrice dir =
     (if requiredMargin cfg balance entryPrice dir > balance
      then balance * of_int (risk_leverage cfg)
      else riskPositionSize cfg balance entryPrice dir)"

text \<open>The quantity before rounding.\<close>

definition rawQuantity :: "config \<Rightarrow> real \<Rightarrow> real \<Rightarrow> string \<Rightarrow> real" where
  "rawQuantity cfg balance entryPrice dir = positionSize cfg balance entryPrice dir / entryPrice"

definition takeProfitPrice :: "config \<Rightarrow> real \<Rightarrow> string \<Rightarrow> real" where
  "takeProfitPrice cfg entryPrice dir =
     (if dir = ''LONG'' then entryPrice * (1 + risk_takeProfitPercent cfg / 100)
      else entryPrice * (1 - risk_takeProfitPercent cfg / 100))"

text \<open>
  \<^verbatim>\<open>symbolInfo.maxQty || Infinity\<close>: \<open>None\<close> is \<open>Infinity\<close>, which no quantity
  exceeds.
\<close>

definition effectiveMaxQty :: "symbolInfo \<Rightarrow> real option" where
  "effectiveMaxQty info =
     (case maxQty info of None \<Rightarrow> None | Some m \<Rightarrow> if m = 0 then None else Some m)"

text \<open>
  Step 8 and the two limit checks: the quantity rounded to the tick size, raised to the
  minimum when below it, then lowered to the maximum when above it. The second component
  is the notional size, recomputed whenever a limit applies.
\<close>

definition limitedQuantity :: "config \<Rightarrow> real \<Rightarrow> real \<Rightarrow> string \<Rightarrow> symbolInfo \<Rightarrow> real \<times> real" where
  "limitedQuantity cfg balance entryPrice dir info =
     (let tick = js_or (tickSize info) (1 / 10000);
          minQ = js_or (minQty info) 0;
          q0 = roundQuantity (rawQuantity cfg balance entryPrice dir) tick;
          s0 = positionSize cfg balance entryPrice dir;
          (q1, s1) = (if q0 < minQ then (minQ, minQ * entryPrice) else (q0, s0))
      in case effectiveMaxQty info of
           None \<Rightarrow> (q1, s1)
         | Some maxQ \<Rightarrow> if q1 > maxQ then (maxQ, maxQ * entryPrice) else (q1, s1))"

definition calculatePositionParameters ::
  "config \<Rightarrow> real \<Rightarrow> real \<Rightarrow> string \<Rightarrow> symbolInfo \<Rightarrow> risk_error + positionParams" where
  "calculatePositionParameters cfg balance entryPrice dir info =
     (if \<not> isValidNumber balance \<or> balance \<le> 0 then Inl (InvalidBalance balance)
      else if \<not> isValidNumber entryPrice \<or> entryPrice \<le> 0 then Inl (InvalidEntryPrice entryPrice)
      else if dir \<noteq> ''LONG'' \<and> dir \<noteq> ''SHORT'' then Inl (InvalidDirection dir)
      else if stopLossDistance cfg entryPrice dir \<le> 0 then Inl StopLossDistanceNotPositive
      else
        let prec = (case pricePrecision info of None \<Rightarrow> Some 4 | Some d \<Rightarrow> Some d);
            (qty, size) = limitedQuantity cfg balance entryPrice dir info;
            finalRequiredMargin = (qty * entryPrice) / of_int (risk_leverage cfg)
        in if finalRequiredMargin > balance
           then Inl (InsufficientBalance finalRequiredMargin balance)
           else Inr \<lparr>pp_entryPrice = roundPrice entryPrice prec,
                     pp_quantity = qty,
                     pp_positionSize = size,
                     pp_leverage = risk_leverage cfg,
                     pp_requiredMargin = finalRequiredMargin,
                     pp_stopLoss = roundPrice (stopLossPrice cfg entryPrice dir) prec,
                     pp_takeProfit = roundPrice (takeProfitPrice cfg entryPrice dir) prec,
                     pp_riskAmount = riskAmount cfg balance,
                     pp_direction = dir\<rparr>)"

definition hasSufficientBalance :: "real \<Rightarrow> real \<Rightarrow> bool" where
  "hasSufficientBalance balance margin =
     (isValidNumber balance \<and> isValidNumber margin \<and> balance \<ge> margin)"

section \<open>Strings\<close>

text \<open>\<^verbatim>\<open>haystack.includes(needle)\<close>.\<close>

fun str_includes :: "string \<Rightarrow> string \<Rightarrow> bool" where
  "str_includes [] needle = (needle = [])"
| "str_includes (c # cs) needle =
     (take (length needle) (c # cs) = needle \<or> str_includes cs needle)"

text \<open>\<^verbatim>\<open>toUpperCase\<close>, on the ASCII letters.\<close>

definition upper_char :: "char \<Rightarrow> char" where
  "upper_char c =
     (case map_of (zip ''abcdefghijklmnopqrstuvwxyz'' ''ABCDEFGHIJKLMNOPQRSTUVWXYZ'') c of
        Some u \<Rightarrow> u
      | None \<Rightarrow> c)"

definition toUpperCase :: "string \<Rightarrow> string" where
  "toUpperCase s = map upper_char s"

text \<open>\<^verbatim>\<open>trim\<close>: blanks, tabs and line ends go from both ends.\<close>

definition is_space :: "char \<Rightarrow> bool" where
  "is_space c = (c \<in> set [CHR '' '', CHR 0x09, CHR 0x0A, CHR 0x0B, CHR 0x0C, CHR 0x0D])"

definition trim :: "string \<Rightarrow> string" where
  "trim s = rev (dropWhile is_space (rev (dropWhile is_space s)))"

text \<open>\<^verbatim>\<open>s.split(',')\<close> and \<^verbatim>\<open>xs.join(separator)\<close>.\<close>

fun split_comma :: "string \<Rightarrow> string list" where
  "split_comma [] = [[]]"
| "split_comma (c # cs) =
     (if c = CHR '','' then [] # split_comma cs
      else (case split_comma cs of [] \<Rightarrow> [[c]] | w # ws \<Rightarrow> (c # w) # ws))"

fun join_with :: "string \<Rightarrow> string list \<Rightarrow> string" where
  "join_with sep [] = []"
| "join_with sep [x] = x"
| "join_with sep (x # y # ys) = x @ sep @ join_with sep (y # ys)"

text \<open>A number in decimal, as string concatenation and template literals print an integer.\<close>

definition digit_char :: "nat \<Rightarrow> char" where
  "digit_char d = ''0123456789'' ! (d mod 10)"

function string_of_nat :: "nat \<Rightarrow> string" where
  "string_of_nat n =
     (if n < 10 then [digit_char n] else string_of_nat (n div 10) @ [digit_char (n mod 10)])"
  by pat_completeness auto
termination
  by (relation "measure (\<lambda>n. n)") auto

declare string_of_nat.simps [simp del]

definition string_of_int :: "int \<Rightarrow> string" where
  "string_of_int i = (if i < 0 then CHR ''-'' # string_of_nat (nat (- i)) else string_of_nat (nat i))"

text \<open>
  \<^verbatim>\<open>isSymbolAllowed(symbol, allowedSymbols)\<close>: false on an empty symbol or list text,
  otherwise membership, letter case ignored, among the trimmed entries of the comma
  separated text.
\<close>

definition isSymbolAllowed :: "string \<Rightarrow> string \<Rightarrow> bool" where
  "isSymbolAllowed symb allowed =
     (if symb = [] \<or> allowed = [] then False
      else let symbols = map (\<lambda>s. toUpperCase (trim s)) (split_comma allowed)
           in toUpperCase symb \<in> set symbols)"

text \<open>
  \<^verbatim>\<open>formatDuration(seconds)\<close>: hours, minutes and seconds, a part that is zero left
  out, the seconds kept when nothing else is.
\<close>

definition formatDuration :: "int \<Rightarrow> string" where
  "formatDuration seconds =
     (if seconds \<le> 0 then ''0s''
      else let hours = seconds div 3600;
               minutes = (seconds mod 3600) div 60;
               secs = seconds mod 60;
               parts1 = (if hours > 0 then [string_of_int hours @ ''h''] else []);
               parts2 = parts1 @ (if minutes > 0 then [string_of_int minutes @ ''m''] else []);
               parts3 = parts2 @ (if secs > 0 \<or> parts2 = [] then [string_of_int secs @ ''s''] else [])
           in join_with '' '' parts3)"

section \<open>services/position.service.js\<close>

text \<open>
  \<^verbatim>\<open>Date.now()\<close> is the parameter \<open>now\<close> of every operation that reads the clock, in
  milliseconds; the readings within one call are taken as one instant.
\<close>

text \<open>
  The argument of \<^verbatim>\<open>addOpenPosition\<close>. The order ids and the time stamp may be
  undefined.
\<close>

record positionData =
  pd_symbol :: string
  pd_direction :: string
  pd_entryPrice :: real
  pd_quantity :: real
  pd_takeProfit :: real
  pd_stopLoss :: real
  pd_orderId :: "string option"
  pd_timestamp :: "int option"
  pd_tpOrderId :: "string option"
  pd_slOrderId :: "string option"

text \<open>A tracked open position, the value kept in the \<^verbatim>\<open>openPositions\<close> map.\<close>

record position =
  symbol :: string
  direction :: string
  entryPrice :: real
  quantity :: real
  takeProfit :: real
  stopLoss :: real
  orderId :: "string option"
  timestamp :: int
  tpOrderId :: "string option"
  slOrderId :: "string option"

text \<open>
  \<^verbatim>\<open>{...trackedPosition, exitPrice, pnl, pnlPercent, duration}\<close>, and the same with
  \<^verbatim>\<open>closedAt\<close> as the history keeps it.
\<close>

record closedPositionData = position +
  exitPrice :: real
  pnl :: real
  pnlPercent :: real
  duration :: string

record closedPosition = closedPositionData +
  closedAt :: int

text \<open>
  The service's state. A JavaScript \<^verbatim>\<open>Map\<close> keeps its keys in insertion order and
  \<^verbatim>\<open>set\<close> on a key that is present replaces the value where it stands: an association
  list with \<^const>\<open>AList.update\<close> and \<^const>\<open>AList.delete\<close>.
\<close>

record ledger =
  openPositions :: "(string \<times> position) list"
  closedPositions :: "closedPosition list"
  monitoringInterval :: bool

definition newPositionService :: ledger where
  "newPositionService = \<lparr>openPositions = [], closedPositions = [], monitoringInterval = False\<rparr>"

text \<open>\<^verbatim>\<open>timestamp || Date.now()\<close>.\<close>

definition timestamp_or_now :: "int option \<Rightarrow> int \<Rightarrow> int" where
  "timestamp_or_now t now = (case t of None \<Rightarrow> now | Some x \<Rightarrow> if x = 0 then now else x)"

text \<open>The object \<^verbatim>\<open>addOpenPosition\<close> stores, and the method itself.\<close>

definition trackedPositionOf :: "int \<Rightarrow> positionData \<Rightarrow> position" where
  "trackedPositionOf now pd =
     \<lparr>symbol = pd_symbol pd, direction = pd_direction pd,
      entryPrice = pd_entryPrice pd, quantity = pd_quantity pd,
      takeProfit = pd_takeProfit pd, stopLoss = pd_stopLoss pd,
      orderId = pd_orderId pd, timestamp = timestamp_or_now (pd_timestamp pd) now,
      tpOrderId = pd_tpOrderId pd, slOrderId = pd_slOrderId pd\<rparr>"

definition addOpenPosition :: "int \<Rightarrow> positionData \<Rightarrow> ledger \<Rightarrow> ledger" where
  "addOpenPosition now pd l =
     l\<lparr>openPositions :=
         AList.update (pd_symbol pd) (trackedPositionOf now pd) (openPositions l)\<rparr>"

text \<open>\<^verbatim>\<open>removeOpenPosition\<close> returns the removed position, \<open>None\<close> for \<^verbatim>\<open>null\<close>.\<close>

definition removeOpenPosition :: "string \<Rightarrow> ledger \<Rightarrow> position option \<times> ledger" where
  "removeOpenPosition symb l =
     (case map_of (openPositions l) symb of
        Some p \<Rightarrow> (Some p, l\<lparr>openPositions := AList.delete symb (openPositions l)\<rparr>)
      | None \<Rightarrow> (None, l))"

text \<open>\<^verbatim>\<open>{...positionData, closedAt: Date.now()}\<close>, pushed by \<^verbatim>\<open>addClosedPosition\<close>.\<close>

definition closedAtNow :: "int \<Rightarrow> closedPositionData \<Rightarrow> closedPosition" where
  "closedAtNow now cd = closedPositionData.extend cd \<lparr>closedAt = now\<rparr>"

definition addClosedPosition :: "int \<Rightarrow> closedPositionData \<Rightarrow> ledger \<Rightarrow> ledger" where
  "addClosedPosition now cd l = l\<lparr>closedPositions := closedPositions l @ [closedAtNow now cd]\<rparr>"

definition hasOpenPosition :: "ledger \<Rightarrow> string \<Rightarrow> bool" where
  "hasOpenPosition l symb = (map_of (openPositions l) symb \<noteq> None)"

definition getOpenPosition :: "ledger \<Rightarrow> string \<Rightarrow> position option" where
  "getOpenPosition l symb = map_of (openPositions l) symb"

definition getAllOpenPositions :: "ledger \<Rightarrow> position list" where
  "getAllOpenPositions l = map snd (openPositions l)"

definition getOpenPositionsCount :: "ledger \<Rightarrow> int" where
  "getOpenPositionsCount l = int (length (openPositions l))"

definition startMonitoring :: "ledger \<Rightarrow> ledger" where
  "startMonitoring l = (if monitoringInterval l then l else l\<lparr>monitoringInterval := True\<rparr>)"

definition stopMonitoring :: "ledger \<Rightarrow> ledger" where
  "stopMonitoring l = (if monitoringInterval l then l\<lparr>monitoringInterval := False\<rparr> else l)"

definition resetDailyStatistics :: "ledger \<Rightarrow> ledger" where
  "resetDailyStatistics l = l\<lparr>closedPositions := []\<rparr>"

text \<open>
  What the exchange reports to the monitoring step: an execution of the trade history
  (\<^verbatim>\<open>execPrice\<close> read by \<^verbatim>\<open>parseFloat\<close>; the program does not read the
  execution time, the exchange orders its list by it) and a live position.
\<close>

record trade =
  t_symbol :: string
  t_side :: string
  t_execPrice :: real
  t_execTime :: int

record exchangePosition =
  ep_symbol :: string
  ep_size :: real
  ep_unrealisedPnl :: real

text \<open>
  The outcome of the two queries of one monitoring tick: \<open>Inl\<close> carries the message of
  the error the query throws. The trade history is asked per symbol, with a limit of ten.
\<close>

record exchangeView =
  livePositions :: "string + exchangePosition list"
  tradeHistory :: "string \<Rightarrow> string + trade list"

text \<open>
  \<^verbatim>\<open>trades.find(...)\<close> in \<^verbatim>\<open>handlePositionClosed\<close>: the first trade of the list,
  in the order the exchange returns it, for this symbol and on the closing side.
\<close>

definition closeTrade :: "string \<Rightarrow> position \<Rightarrow> trade list \<Rightarrow> trade option" where
  "closeTrade symb tracked trades =
     find (\<lambda>t. t_symbol t = symb \<and>
                (t_side t = ''Sell'' \<and> direction tracked = ''LONG'' \<or>
                 t_side t = ''Buy'' \<and> direction tracked = ''SHORT'')) trades"

definition closedPositionDataOf :: "int \<Rightarrow> string \<Rightarrow> position \<Rightarrow> trade list \<Rightarrow> closedPositionData" where
  "closedPositionDataOf now symb tracked trades =
     (let exitP = (case closeTrade symb tracked trades of
                     Some t \<Rightarrow> t_execPrice t
                   | None \<Rightarrow> entryPrice tracked);
          secs = (now - timestamp tracked) div 1000
      in position.extend tracked
           \<lparr>exitPrice = exitP,
            pnl = calculatePnL (entryPrice tracked) exitP (quantity tracked) (direction tracked),
            pnlPercent = calculatePnLPercent (entryPrice tracked) exitP (direction tracked),
            duration = formatDuration secs\<rparr>)"

text \<open>
  \<^verbatim>\<open>handlePositionClosed\<close>. An error of the trade history query is caught and logged
  and leaves the ledger as it was. The notification sent afterwards comes after both
  ledger updates and its failure is caught in the same way, so it does not show here.
\<close>

definition handlePositionClosed ::
  "int \<Rightarrow> (string + trade list) \<Rightarrow> string \<Rightarrow> position \<Rightarrow> ledger \<Rightarrow> ledger" where
  "handlePositionClosed now history symb tracked l =
     (case history of
        Inl message \<Rightarrow> l
      | Inr trades \<Rightarrow>
          snd (removeOpenPosition symb
                 (addClosedPosition now (closedPositionDataOf now symb tracked trades) l)))"

text \<open>\<^verbatim>\<open>updatePositionData\<close> reads the unrealised profit and logs it.\<close>

definition updatePositionData :: "string \<Rightarrow> exchangePosition \<Rightarrow> ledger \<Rightarrow> ledger" where
  "updatePositionData symb ep l = l"

text \<open>The body of the loop of \<^verbatim>\<open>checkPositions\<close> for one tracked entry.\<close>

definition checkPosition ::
  "int \<Rightarrow> exchangeView \<Rightarrow> exchangePosition list \<Rightarrow> string \<times> position \<Rightarrow> ledger \<Rightarrow> ledger" where
  "checkPosition now ex positions entry l =
     (let symb = fst entry; tracked = snd entry in
      case find (\<lambda>pos. ep_symbol pos = symb) positions of
        None \<Rightarrow> handlePositionClosed now (tradeHistory ex symb) symb tracked l
      | Some ep \<Rightarrow>
          if ep_size ep = 0 then handlePositionClosed now (tradeHistory ex symb) symb tracked l
          else updatePositionData symb ep l)"

text \<open>
  \<^verbatim>\<open>checkPositions\<close>: nothing when no position is tracked or when the query of the live
  positions throws; otherwise the loop over the tracked entries in map order. The body
  deletes no entry but the one it is visiting, so the loop sees every entry of the map as
  it was at the start.
\<close>

definition checkPositions :: "int \<Rightarrow> exchangeView \<Rightarrow> ledger \<Rightarrow> ledger" where
  "checkPositions now ex l =
     (if length (openPositions l) = 0 then l
      else case livePositions ex of
             Inl message \<Rightarrow> l
           | Inr positions \<Rightarrow> fold (checkPosition now ex positions) (openPositions l) l)"

record positionStatistics =
  totalTrades :: int
  winTrades :: int
  loseTrades :: int
  totalPnl :: real
  openCount :: int
  closedCount :: int

definition getStatistics :: "ledger \<Rightarrow> positionStatistics" where
  "getStatistics l =
     (let total = int (length (closedPositions l));
          wins = int (length (filter (\<lambda>p. pnl p \<ge> 0) (closedPositions l)))
      in \<lparr>totalTrades = total, winTrades = wins, loseTrades = total - wins,
          totalPnl = foldl (\<lambda>sum p. sum + pnl p) 0 (closedPositions l),
          openCount = int (length (openPositions l)),
          closedCount = total\<rparr>)"

section \<open>services/bybit.service.js\<close>

text \<open>
  The exchange client is outside the program. A call to it either throws (\<open>Inl\<close>, with
  the error's message) or returns a response, of which the service reads the return code,
  the return message and \<^verbatim>\<open>result?.orderId\<close>.
\<close>

record response =
  retCode :: int
  retMsg :: string
  result_orderId :: "string option"

definition getPositionIdx :: "config \<Rightarrow> string \<Rightarrow> int" where
  "getPositionIdx cfg dir =
     (let mode = toUpperCase (if bybit_positionMode cfg = [] then ''ONE_WAY''
                              else bybit_positionMode cfg)
      in if mode = ''HEDGE'' then (if dir = ''LONG'' then 1 else 2) else 0)"

text \<open>
  \<^verbatim>\<open>setLeverage(symbol, leverage)\<close>. The body of the \<^verbatim>\<open>try\<close> comes first; the
  \<^verbatim>\<open>catch\<close> then sees whatever was thrown, by the client or by the body itself.
\<close>

definition setLeverage_try :: "(string + response) \<Rightarrow> string + bool" where
  "setLeverage_try outcome =
     (case outcome of
        Inl message \<Rightarrow> Inl message
      | Inr r \<Rightarrow>
          if retMsg r = ''leverage not modified'' \<or> retCode r = 110043 then Inr True
          else if retCode r \<noteq> 0 then Inl (''Failed to set leverage: '' @ retMsg r)
          else Inr True)"

definition setLeverage :: "string \<Rightarrow> int \<Rightarrow> (string + response) \<Rightarrow> string + bool" where
  "setLeverage symb lev outcome =
     (case setLeverage_try outcome of
        Inr ok \<Rightarrow> Inr ok
      | Inl message \<Rightarrow>
          if str_includes message ''leverage not modified'' \<or> str_includes message ''110043''
          then Inr True
          else Inl message)"

text \<open>\<^verbatim>\<open>openMarketOrder\<close> returns the order, of which the caller reads the id.\<close>

definition openMarketOrder ::
  "string \<Rightarrow> string \<Rightarrow> real \<Rightarrow> int \<Rightarrow> (string + response) \<Rightarrow> string + string option" where
  "openMarketOrder symb side qty idx outcome =
     (case outcome of
        Inl message \<Rightarrow> Inl message
      | Inr r \<Rightarrow>
          if retCode r \<noteq> 0 then Inl (''Failed to open order: '' @ retMsg r)
          else Inr (result_orderId r))"

text \<open>\<^verbatim>\<open>response.result?.orderId || fallback\<close>.\<close>

definition orderId_or :: "string option \<Rightarrow> string \<Rightarrow> string" where
  "orderId_or i fallback = (case i of None \<Rightarrow> fallback | Some x \<Rightarrow> if x = [] then fallback else x)"

definition setTakeProfit ::
  "string \<Rightarrow> string \<Rightarrow> real \<Rightarrow> real \<Rightarrow> int \<Rightarrow> bool \<Rightarrow> (string + response) \<Rightarrow> string + string" where
  "setTakeProfit symb side price qty idx hasTradingStop outcome =
     (if \<not> hasTradingStop
      then Inl ''Bybit client does not support setTradingStop (upgrade bybit-api package)''
      else case outcome of
             Inl message \<Rightarrow> Inl message
           | Inr r \<Rightarrow>
               if retCode r \<noteq> 0 then Inl (''Failed to set Take Profit: '' @ retMsg r)
               else Inr (orderId_or (result_orderId r) ''TP_SET_TRADING_STOP''))"

definition setStopLoss ::
  "string \<Rightarrow> string \<Rightarrow> real \<Rightarrow> real \<Rightarrow> int \<Rightarrow> bool \<Rightarrow> (string + response) \<Rightarrow> string + string" where
  "setStopLoss symb side price qty idx hasTradingStop outcome =
     (if \<not> hasTradingStop
      then Inl ''Bybit client does not support setTradingStop (upgrade bybit-api package)''
      else case outcome of
             Inl message \<Rightarrow> Inl message
           | Inr r \<Rightarrow>
               if retCode r \<noteq> 0 then Inl (''Failed to set Stop Loss: '' @ retMsg r)
               else Inr (orderId_or (result_orderId r) ''SL_SET_TRADING_STOP''))"

section \<open>services/time.service.js\<close>

text \<open>The clock is a parameter: milliseconds since the epoch, read in UTC.\<close>

definition getUTCHours :: "int \<Rightarrow> int" where
  "getUTCHours now = (now div 3600000) mod 24"

definition getUTCMinutes :: "int \<Rightarrow> int" where
  "getUTCMinutes now = (now div 60000) mod 60"

text \<open>\<^verbatim>\<open>isTradingHoursActive()\<close>, at the hour \<^verbatim>\<open>getUTCHours()\<close> returns.\<close>

definition isTradingHoursActive :: "config \<Rightarrow> int \<Rightarrow> bool" where
  "isTradingHoursActive cfg currentHour =
     (if \<not> tradingHours_enabled cfg then True
      else let startHour = tradingHours_startHour cfg; endHour = tradingHours_endHour cfg
           in if endHour > startHour then currentHour \<ge> startHour \<and> currentHour < endHour
              else currentHour \<ge> startHour \<or> currentHour < endHour)"

record hoursInfo =
  isActive :: bool
  currentHour :: int
  currentMinute :: int
  startHour :: int
  endHour :: int
  nextTradingIn :: "(int \<times> int) option"

text \<open>
  \<^verbatim>\<open>getTradingHoursInfo()\<close>. The time to the next window is the pair of hours and
  minutes the source prints as \<^verbatim>\<open>`${diffHours}h ${diffMinutes}m`\<close>; the next start lies
  ahead of the clock whenever the window is inactive.
\<close>

definition getTradingHoursInfo :: "config \<Rightarrow> int \<Rightarrow> hoursInfo" where
  "getTradingHoursInfo cfg now =
     (let hour = getUTCHours now;
          startH = tradingHours_startHour cfg;
          endH = tradingHours_endHour cfg;
          active = isTradingHoursActive cfg hour;
          today = (now - now mod 86400000) + startH * 3600000;
          nextStart =
            (if endH > startH
             then (if hour \<ge> endH then today + 86400000 else today)
             else (if hour < startH then today else today + 86400000));
          diffMs = nextStart - now
      in \<lparr>isActive = active, currentHour = hour, currentMinute = getUTCMinutes now,
          startHour = startH, endHour = endH,
          nextTradingIn =
            (if active then None
             else Some (diffMs div 3600000, (diffMs mod 3600000) div 60000))\<rparr>)"

section \<open>index.js\<close>

record signal =
  sg_symbol :: string
  sg_direction :: string
  sg_signalType :: string
  sg_timestamp :: "int option"

record statistics =
  stat_totalTrades :: int
  stat_winTrades :: int
  stat_loseTrades :: int
  stat_totalProfit :: real
  stat_startBalance :: real
  stat_currentBalance :: real
  stat_dailyTrades :: int
  stat_signalsIgnored :: int
  stat_totalSignals :: int
  stat_lastResetDate :: string

text \<open>The requests the program sends out, logged in the order they are made.\<close>

datatype call =
    GetUSDTBalance
  | GetCurrentPrice string
  | GetSymbolInfo string
  | SetLeverage string int
  | SubmitMarketOrder string string real int
  | SetTakeProfit string int real
  | SetStopLoss string int real
  | SendMessage

text \<open>
  What the outside world answers while one signal is handled: for every request its
  outcome, \<open>Inl\<close> with the message when the call throws.
\<close>

record exchange =
  usdtBalance :: "string + real"
  currentPrice :: "string \<Rightarrow> string + real"
  symbolInfoOf :: "string \<Rightarrow> string + symbolInfo"
  leverageOutcome :: "string + response"
  orderOutcome :: "string + response"
  hasSetTradingStop :: bool
  takeProfitOutcome :: "string + response"
  stopLossOutcome :: "string + response"
  sendMessageOutcome :: "string + unit"

text \<open>The state of the process: the position service, the counters and the request log.\<close>

record bot =
  positionService :: ledger
  stats :: statistics
  calls :: "call list"

definition request :: "call \<Rightarrow> bot \<Rightarrow> bot" where
  "request c b = b\<lparr>calls := calls b @ [c]\<rparr>"

text \<open>
  The reasons \<^verbatim>\<open>validateSignal\<close> gives, in the order of its checks. Each stands for the
  message of the source; the trading hours one carries the \<^verbatim>\<open>info\<close> object, which is
  empty for the others.
\<close>

datatype rejection =
    SymbolNotAllowed string
  | InvalidSignalDirection string
  | OutsideTradingHours hoursInfo
  | PositionAlreadyOpen string
  | MaxOpenPositionsReached int
  | MaxDailyTradesReached int
  | InsufficientBalanceReason
  | BalanceCheckError string
  | SymbolNotTrading string
  | SymbolLookupError string string

datatype validation = Valid | Invalid rejection

text \<open>Checks 7 and 8 of \<^verbatim>\<open>validateSignal\<close>, the two that ask the exchange.\<close>

definition validateInstrument :: "exchange \<Rightarrow> string \<Rightarrow> bot \<Rightarrow> validation \<times> bot" where
  "validateInstrument ex symb b =
     (let b1 = request (GetSymbolInfo symb) b in
      case symbolInfoOf ex symb of
        Inl message \<Rightarrow> (Invalid (SymbolLookupError symb message), b1)
      | Inr info \<Rightarrow>
          if status info \<noteq> ''Trading'' then (Invalid (SymbolNotTrading symb), b1)
          else (Valid, b1))"

definition validateBalance :: "exchange \<Rightarrow> string \<Rightarrow> bot \<Rightarrow> validation \<times> bot" where
  "validateBalance ex symb b =
     (let b1 = request GetUSDTBalance b in
      case usdtBalance ex of
        Inl message \<Rightarrow> (Invalid (BalanceCheckError message), b1)
      | Inr balance \<Rightarrow>
          let b2 = b1\<lparr>stats := (stats b1)\<lparr>stat_currentBalance := balance\<rparr>\<rparr>
          in if balance \<le> 0 then (Invalid InsufficientBalanceReason, b2)
             else validateInstrument ex symb b2)"

definition validateSignal :: "config \<Rightarrow> int \<Rightarrow> exchange \<Rightarrow> signal \<Rightarrow> bot \<Rightarrow> validation \<times> bot" where
  "validateSignal cfg now ex sg b =
     (let symb = sg_symbol sg; dir = sg_direction sg in
      if \<not> isSymbolAllowed symb (join_with '','' (trading_allowedSymbols cfg))
      then (Invalid (SymbolNotAllowed symb), b)
      else if dir \<noteq> ''LONG'' \<and> dir \<noteq> ''SHORT''
      then (Invalid (InvalidSignalDirection dir), b)
      else if \<not> isTradingHoursActive cfg (getUTCHours now)
      then (Invalid (OutsideTradingHours (getTradingHoursInfo cfg now)), b)
      else if hasOpenPosition (positionService b) symb
      then (Invalid (PositionAlreadyOpen symb), b)
      else if getOpenPositionsCount (positionService b) \<ge> trading_maxOpenPositions cfg
      then (Invalid (MaxOpenPositionsReached (trading_maxOpenPositions cfg)), b)
      else if stat_dailyTrades (stats b) \<ge> trading_maxDailyTrades cfg
      then (Invalid (MaxDailyTradesReached (trading_maxDailyTrades cfg)), b)
      else validateBalance ex symb b)"

text \<open>What \<^verbatim>\<open>openPosition\<close> throws: an exchange or messaging error, or a sizing error.\<close>

datatype open_error =
    ExchangeError string
  | RiskError risk_error
  | InsufficientMargin real real
  | TypeError string

text \<open>
  \<^verbatim>\<open>formatPositionOpenedMessage(positionData)\<close> of the messaging service, as far as it
  can fail: it calls \<^verbatim>\<open>symbol.replace\<close> on the \<^verbatim>\<open>symbol\<close> property of its argument,
  which throws a \<^verbatim>\<open>TypeError\<close> when the argument has no such property. The text it
  builds is not modelled.
\<close>

definition formatPositionOpenedMessage :: "string option \<Rightarrow> string + unit" where
  "formatPositionOpenedMessage symbolProperty =
     (case symbolProperty of
        None \<Rightarrow> Inl ''Cannot read properties of undefined (reading replace)''
      | Some s \<Rightarrow> Inr ())"

text \<open>Step 6: both trade counters go up by one.\<close>

definition countTrade :: "bot \<Rightarrow> bot" where
  "countTrade b =
     b\<lparr>stats := (stats b)\<lparr>stat_totalTrades := stat_totalTrades (stats b) + 1,
                            stat_dailyTrades := stat_dailyTrades (stats b) + 1\<rparr>\<rparr>"

definition track :: "int \<Rightarrow> positionData \<Rightarrow> bot \<Rightarrow> bot" where
  "track now pd b = b\<lparr>positionService := addOpenPosition now pd (positionService b)\<rparr>"

definition positionDataOf ::
  "signal \<Rightarrow> positionParams \<Rightarrow> string option \<Rightarrow> string \<Rightarrow> string \<Rightarrow> positionData" where
  "positionDataOf sg pp entryId tpId slId =
     \<lparr>pd_symbol = sg_symbol sg, pd_direction = sg_direction sg,
      pd_entryPrice = pp_entryPrice pp, pd_quantity = pp_quantity pp,
      pd_takeProfit = pp_takeProfit pp, pd_stopLoss = pp_stopLoss pp,
      pd_orderId = entryId, pd_timestamp = sg_timestamp sg,
      pd_tpOrderId = Some tpId, pd_slOrderId = Some slId\<rparr>"

text \<open>\<^verbatim>\<open>direction === 'LONG' ? 'Buy' : 'Sell'\<close>, the side of the entry order.\<close>

definition entrySide :: "string \<Rightarrow> string" where
  "entrySide dir = (if dir = ''LONG'' then ''Buy'' else ''Sell'')"

text \<open>
  The live branch of \<^verbatim>\<open>openPosition\<close>, steps 1 to 7. Every \<^verbatim>\<open>await\<close> that throws
  leaves through the \<^verbatim>\<open>catch\<close>, which logs and throws the same error again. In step 7
  the message is formatted from \<^verbatim>\<open>{...positionParams, balance, timestamp}\<close>, an object
  without a \<^verbatim>\<open>symbol\<close> property, before anything is sent.
\<close>

definition placeOrders ::
  "config \<Rightarrow> int \<Rightarrow> exchange \<Rightarrow> signal \<Rightarrow> positionParams \<Rightarrow> bot \<Rightarrow> (open_error + unit) \<times> bot" where
  "placeOrders cfg now ex sg pp b =
     (let symb = sg_symbol sg; dir = sg_direction sg;
          b1 = request (SetLeverage symb (risk_leverage cfg)) b
      in case setLeverage symb (risk_leverage cfg) (leverageOutcome ex) of
           Inl message \<Rightarrow> (Inl (ExchangeError message), b1)
         | Inr ok \<Rightarrow>
      let side = entrySide dir;
          idx = getPositionIdx cfg dir;
          b2 = request (SubmitMarketOrder symb side (pp_quantity pp) idx) b1
      in case openMarketOrder symb side (pp_quantity pp) idx (orderOutcome ex) of
           Inl message \<Rightarrow> (Inl (ExchangeError message), b2)
         | Inr entryId \<Rightarrow>
      let b3 = (if hasSetTradingStop ex
                then request (SetTakeProfit symb idx (pp_takeProfit pp)) b2 else b2)
      in case setTakeProfit symb side (pp_takeProfit pp) (pp_quantity pp) idx
                (hasSetTradingStop ex) (takeProfitOutcome ex) of
           Inl message \<Rightarrow> (Inl (ExchangeError message), b3)
         | Inr tpId \<Rightarrow>
      let b4 = (if hasSetTradingStop ex
                then request (SetStopLoss symb idx (pp_stopLoss pp)) b3 else b3)
      in case setStopLoss symb side (pp_stopLoss pp) (pp_quantity pp) idx
                (hasSetTradingStop ex) (stopLossOutcome ex) of
           Inl message \<Rightarrow> (Inl (ExchangeError message), b4)
         | Inr slId \<Rightarrow>
      let b5 = countTrade (track now (positionDataOf sg pp entryId tpId slId) b4)
      in case formatPositionOpenedMessage None of
           Inl message \<Rightarrow> (Inl (TypeError message), b5)
         | Inr formatted \<Rightarrow>
      let b6 = request SendMessage b5
      in case sendMessageOutcome ex of
           Inl message \<Rightarrow> (Inl (ExchangeError message), b6)
         | Inr u \<Rightarrow> (Inr (), b6))"

text \<open>The dry run branch: no request, a position with made-up order ids.\<close>

definition simulateOrders :: "int \<Rightarrow> signal \<Rightarrow> positionParams \<Rightarrow> bot \<Rightarrow> (open_error + unit) \<times> bot" where
  "simulateOrders now sg pp b =
     (Inr (),
      countTrade (track now
        (positionDataOf sg pp (Some (''DRY_RUN_'' @ string_of_int now)) ''DRY_RUN_TP'' ''DRY_RUN_SL'')
        b))"

text \<open>The sizing part of \<^verbatim>\<open>openPosition\<close>, after the three queries have answered.\<close>

definition sizeAndOpen ::
  "config \<Rightarrow> int \<Rightarrow> exchange \<Rightarrow> signal \<Rightarrow> real \<Rightarrow> real \<Rightarrow> symbolInfo \<Rightarrow> bot \<Rightarrow> (open_error + unit) \<times> bot" where
  "sizeAndOpen cfg now ex sg balance price info b =
     (case calculatePositionParameters cfg balance price (sg_direction sg) info of
        Inl e \<Rightarrow> (Inl (RiskError e), b)
      | Inr pp \<Rightarrow>
          if \<not> hasSufficientBalance balance (pp_requiredMargin pp)
          then (Inl (InsufficientMargin (pp_requiredMargin pp) balance), b)
          else if trading_dryRun cfg then simulateOrders now sg pp b
          else placeOrders cfg now ex sg pp b)"

definition openPosition ::
  "config \<Rightarrow> int \<Rightarrow> exchange \<Rightarrow> signal \<Rightarrow> bot \<Rightarrow> (open_error + unit) \<times> bot" where
  "openPosition cfg now ex sg b =
     (let symb = sg_symbol sg;
          b1 = request GetUSDTBalance b
      in case usdtBalance ex of
           Inl message \<Rightarrow> (Inl (ExchangeError message), b1)
         | Inr balance \<Rightarrow>
      let b2 = request (GetCurrentPrice symb)
                 (b1\<lparr>stats := (stats b1)\<lparr>stat_currentBalance := balance\<rparr>\<rparr>)
      in case currentPrice ex symb of
           Inl message \<Rightarrow> (Inl (ExchangeError message), b2)
         | Inr price \<Rightarrow>
      let b3 = request (GetSymbolInfo symb) b2
      in case symbolInfoOf ex symb of
           Inl message \<Rightarrow> (Inl (ExchangeError message), b3)
         | Inr info \<Rightarrow> sizeAndOpen cfg now ex sg balance price info b3)"

section \<open>The operations of the position service as steps\<close>

text \<open>
  Every method of \<^verbatim>\<open>PositionService\<close> that can change its state, with its arguments and
  with what the outside world feeds it. The getters change nothing and have no step.
\<close>

datatype ledger_op =
    AddOpenPosition int positionData
  | RemoveOpenPosition string
  | AddClosedPosition int closedPositionData
  | HandlePositionClosed int "string + trade list" string position
  | UpdatePositionData string exchangePosition
  | CheckPositions int exchangeView
  | StartMonitoring
  | StopMonitoring
  | ResetDailyStatistics

fun run_op :: "ledger_op \<Rightarrow> ledger \<Rightarrow> ledger" where
  "run_op (AddOpenPosition now pd) l = addOpenPosition now pd l"
| "run_op (RemoveOpenPosition symb) l = snd (removeOpenPosition symb l)"
| "run_op (AddClosedPosition now cd) l = addClosedPosition now cd l"
| "run_op (HandlePositionClosed now history symb tracked) l =
     handlePositionClosed now history symb tracked l"
| "run_op (UpdatePositionData symb ep) l = updatePositionData symb ep l"
| "run_op (CheckPositions now ex) l = checkPositions now ex l"
| "run_op StartMonitoring l = startMonitoring l"
| "run_op StopMonitoring l = stopMonitoring l"
| "run_op ResetDailyStatistics l = resetDailyStatistics l"

definition run_ops :: "ledger_op list \<Rightarrow> ledger \<Rightarrow> ledger" where
  "run_ops ops l = fold run_op ops l"

section \<open>The validation order as the specification words it\<close>

text \<open>
  The eight checks in the order the specification lists them, each as a pair: whether the
  check passes, and the rejection reported when it does not. The result of a validation is
  the rejection of the first check that fails.
\<close>

definition spec_checks :: "config \<Rightarrow> int \<Rightarrow> exchange \<Rightarrow> signal \<Rightarrow> bot \<Rightarrow> (bool \<times> rejection) list" where
  "spec_checks cfg now ex sg b =
     (let symb = sg_symbol sg; dir = sg_direction sg in
      [(isSymbolAllowed symb (join_with '','' (trading_allowedSymbols cfg)), SymbolNotAllowed symb),
       (dir \<in> {''LONG'', ''SHORT''}, InvalidSignalDirection dir),
       (isTradingHoursActive cfg (getUTCHours now),
          OutsideTradingHours (getTradingHoursInfo cfg now)),
       (map_of (openPositions (positionService b)) symb = None, PositionAlreadyOpen symb),
       (int (length (openPositions (positionService b))) < trading_maxOpenPositions cfg,
          MaxOpenPositionsReached (trading_maxOpenPositions cfg)),
       (stat_dailyTrades (stats b) < trading_maxDailyTrades cfg,
          MaxDailyTradesReached (trading_maxDailyTrades cfg)),
       (case usdtBalance ex of Inl message \<Rightarrow> False | Inr balance \<Rightarrow> balance > 0,
          case usdtBalance ex of Inl message \<Rightarrow> BalanceCheckError message
                               | Inr balance \<Rightarrow> InsufficientBalanceReason),
       (case symbolInfoOf ex symb of Inl message \<Rightarrow> False | Inr info \<Rightarrow> status info = ''Trading'',
          case symbolInfoOf ex symb of Inl message \<Rightarrow> SymbolLookupError symb message
                                     | Inr info \<Rightarrow> SymbolNotTrading symb)])"

definition first_failure :: "(bool \<times> rejection) list \<Rightarrow> validation" where
  "first_failure checks =
     (case find (\<lambda>c. \<not> fst c) checks of None \<Rightarrow> Valid | Some c \<Rightarrow> Invalid (snd c))"

text \<open>How many checks run: those that pass up to the first failure, and that one.\<close>

definition checks_run :: "(bool \<times> rejection) list \<Rightarrow> nat" where
  "checks_run checks = min (length checks) (length (takeWhile fst checks) + 1)"

text \<open>The exchange queries behind the checks: the seventh asks the balance, the eighth the instrument.\<close>

definition spec_queries :: "string \<Rightarrow> nat \<Rightarrow> call list" where
  "spec_queries symb n =
     (if n \<ge> 7 then [GetUSDTBalance] else []) @ (if n \<ge> 8 then [GetSymbolInfo symb] else [])"

section \<open>Notions of the specification\<close>

text \<open>A quantity is a multiple of the tick size: a whole number of ticks.\<close>

definition multiple_of_tick :: "real \<Rightarrow> real \<Rightarrow> bool" where
  "multiple_of_tick q tick = (of_int \<lfloor>q / tick\<rfloor> * tick = q)"

text \<open>
  The exchange reports a tracked symbol as closed: no live position for it, or one of size
  zero. This is the test of the loop of \<^verbatim>\<open>checkPositions\<close>.
\<close>

definition reportedClosed :: "exchangePosition list \<Rightarrow> string \<Rightarrow> bool" where
  "reportedClosed positions symb =
     (case find (\<lambda>pos. ep_symbol pos = symb) positions of
        None \<Rightarrow> True
      | Some ep \<Rightarrow> ep_size ep = 0)"

text \<open>
  The monitoring loop closes a tracked symbol in this tick: the exchange reports it closed
  and the query of its trade history answers.
\<close>

definition closedThisTick :: "exchangeView \<Rightarrow> exchangePosition list \<Rightarrow> string \<Rightarrow> bool" where
  "closedThisTick ex positions symb =
     (reportedClosed positions symb \<and>
      (case tradeHistory ex symb of Inl message \<Rightarrow> False | Inr trades \<Rightarrow> True))"

text \<open>The trades the history query returned for a symbol, and the record a closing visit appends.\<close>

definition tradesOf :: "exchangeView \<Rightarrow> string \<Rightarrow> trade list" where
  "tradesOf ex symb = (case tradeHistory ex symb of Inl message \<Rightarrow> [] | Inr trades \<Rightarrow> trades)"

definition closureOf :: "int \<Rightarrow> exchangeView \<Rightarrow> string \<times> position \<Rightarrow> closedPosition" where
  "closureOf now ex entry =
     closedAtNow now (closedPositionDataOf now (fst entry) (snd entry) (tradesOf ex (fst entry)))"

text \<open>A trade that closes a position: on its symbol, selling a long or buying a short.\<close>

definition closes :: "string \<Rightarrow> position \<Rightarrow> trade \<Rightarrow> bool" where
  "closes symb tracked t =
     (t_symbol t = symb \<and>
      (t_side t = ''Sell'' \<and> direction tracked = ''LONG'' \<or>
       t_side t = ''Buy'' \<and> direction tracked = ''SHORT''))"

text \<open>The exchange lists executions newest first.\<close>

definition newest_first :: "trade list \<Rightarrow> bool" where
  "newest_first trades = sorted (rev (map t_execTime trades))"

text \<open>
  The exchange's response says that the leverage already has the requested value: it
  carries the exchange's return code for that, 110043, or the return message
  \<^verbatim>\<open>leverage not modified\<close>.
\<close>

definition alreadySet :: "response \<Rightarrow> bool" where
  "alreadySet r = (retCode r = 110043 \<or> retMsg r = ''leverage not modified'')"

text \<open>What the \<^verbatim>\<open>catch\<close> of \<^verbatim>\<open>setLeverage\<close> looks for in an error message.\<close>

definition mentionsNotModified :: "string \<Rightarrow> bool" where
  "mentionsNotModified message =
     (str_includes message ''leverage not modified'' \<or> str_includes message ''110043'')"

text \<open>A request that places or changes an order.\<close>

fun is_order :: "call \<Rightarrow> bool" where
  "is_order (SubmitMarketOrder symb side qty idx) = True"
| "is_order (SetTakeProfit symb idx price) = True"
| "is_order (SetStopLoss symb idx price) = True"
| "is_order c = False"

section \<open>Example inputs\<close>

definition day_window :: config where
  "day_window = default_config\<lparr>tradingHours_enabled := True\<rparr>"

definition night_window :: config where
  "night_window =
     default_config\<lparr>tradingHours_enabled := True,
                     tradingHours_startHour := 22, tradingHours_endHour := 6\<rparr>"

text \<open>An instrument traded in whole units, and one traded in lots of ten.\<close>

definition unit_lots :: symbolInfo where
  "unit_lots =
     \<lparr>tickSize = Some 1, minQty = Some 1, maxQty = Some 1000000,
      pricePrecision = Some 4, status = ''Trading''\<rparr>"

definition ten_lots :: symbolInfo where
  "ten_lots =
     \<lparr>tickSize = Some 10, minQty = Some 10, maxQty = Some 1000000,
      pricePrecision = Some 4, status = ''Trading''\<rparr>"

text \<open>The empty object that is the default argument of the risk calculation.\<close>

definition no_info :: symbolInfo where
  "no_info =
     \<lparr>tickSize = None, minQty = None, maxQty = None, pricePrecision = None, status = []\<rparr>"

definition ada_long :: signal where
  "ada_long =
     \<lparr>sg_symbol = ''ADAUSDT'', sg_direction = ''LONG'', sg_signalType = ''UNKNOWN'',
      sg_timestamp = Some 1700000000000\<rparr>"

definition fresh_bot :: bot where
  "fresh_bot =
     \<lparr>positionService = newPositionService,
      stats = \<lparr>stat_totalTrades = 0, stat_winTrades = 0, stat_loseTrades = 0,
               stat_totalProfit = 0, stat_startBalance = 1000, stat_currentBalance = 1000,
               stat_dailyTrades = 0, stat_signalsIgnored = 0, stat_totalSignals = 1,
               stat_lastResetDate = ''2023-11-14''\<rparr>,
      calls = []\<rparr>"

definition accepted :: response where
  "accepted = \<lparr>retCode = 0, retMsg = ''OK'', result_orderId = Some ''E1''\<rparr>"

definition refused :: response where
  "refused = \<lparr>retCode = 10001, retMsg = ''params error'', result_orderId = None\<rparr>"

definition not_modified :: response where
  "not_modified = \<lparr>retCode = 110043, retMsg = ''leverage not modified'', result_orderId = None\<rparr>"

text \<open>An exchange that accepts everything, and two that refuse one protective order.\<close>

definition calm_exchange :: exchange where
  "calm_exchange =
     \<lparr>usdtBalance = Inr 1000,
      currentPrice = (\<lambda>symb. Inr 100),
      symbolInfoOf = (\<lambda>symb. Inr unit_lots),
      leverageOutcome = Inr accepted,
      orderOutcome = Inr accepted,
      hasSetTradingStop = True,
      takeProfitOutcome = Inr accepted,
      stopLossOutcome = Inr accepted,
      sendMessageOutcome = Inr ()\<rparr>"

definition take_profit_refused :: exchange where
  "take_profit_refused = calm_exchange\<lparr>takeProfitOutcome := Inr refused\<rparr>"

definition stop_loss_refused :: exchange where
  "stop_loss_refused = calm_exchange\<lparr>stopLossOutcome := Inr refused\<rparr>"

text \<open>A tracked long position, the ledger that holds it, and an exchange that has closed it.\<close>

definition tracked_x :: position where
  "tracked_x =
     \<lparr>symbol = ''X'', direction = ''LONG'', entryPrice = 100, quantity = 2,
      takeProfit = 201 / 2, stopLoss = 997 / 10, orderId = Some ''E1'', timestamp = 1000,
      tpOrderId = Some ''TP_SET_TRADING_STOP'', slOrderId = Some ''SL_SET_TRADING_STOP''\<rparr>"

definition ledger_x :: ledger where
  "ledger_x =
     \<lparr>openPositions = [(''X'', tracked_x)], closedPositions = [], monitoringInterval = True\<rparr>"

definition trades_x :: "trade list" where
  "trades_x =
     [\<lparr>t_symbol = ''X'', t_side = ''Sell'', t_execPrice = 201 / 2, t_execTime = 60000\<rparr>,
      \<lparr>t_symbol = ''X'', t_side = ''Buy'', t_execPrice = 100, t_execTime = 1000\<rparr>]"

definition view_x :: exchangeView where
  "view_x = \<lparr>livePositions = Inr [], tradeHistory = (\<lambda>symb. Inr trades_x)\<rparr>"

definition closed_x :: closedPosition where
  "closed_x =
     \<lparr>symbol = ''X'', direction = ''LONG'', entryPrice = 100, quantity = 2,
      takeProfit = 201 / 2, stopLoss = 997 / 10, orderId = Some ''E1'', timestamp = 1000,
      tpOrderId = Some ''TP_SET_TRADING_STOP'', slOrderId = Some ''SL_SET_TRADING_STOP'',
      exitPrice = 201 / 2, pnl = 1, pnlPercent = 1 / 2, duration = ''1m'', closedAt = 61000\<rparr>"

definition ledger_after_x :: ledger where
  "ledger_after_x =
     \<lparr>openPositions = [], closedPositions = [closed_x], monitoringInterval = True\<rparr>"

definition leverage_refused :: exchange where
  "leverage_refused = calm_exchange\<lparr>leverageOutcome := Inr refused\<rparr>"

text \<open>
  A request the exchange rejects for its time stamp, return code 10002, and an exchange
  that answers the leverage request so and accepts everything else.
\<close>

definition stale :: response where
  "stale =
     \<lparr>retCode = 10002,
      retMsg = ''invalid request, please check your server timestamp or recv_window param. req_timestamp[1711004312345],server_timestamp[1711004319876],recv_window[5000]'',
      result_orderId = None\<rparr>"

definition stale_exchange :: exchange where
  "stale_exchange = calm_exchange\<lparr>leverageOutcome := Inr stale\<rparr>"

text \<open>The sizing of a long position at price 100 with a balance of 1000, in whole units.\<close>

definition ada_params :: positionParams where
  "ada_params =
     \<lparr>pp_entryPrice = 100, pp_quantity = 83, pp_positionSize = 25000 / 3, pp_leverage = 20,
      pp_requiredMargin = 415, pp_stopLoss = 997 / 10, pp_takeProfit = 201 / 2,
      pp_riskAmount = 25, pp_direction = ''LONG''\<rparr>"

text \<open>A second tracked position, a short one, and the ledger with both.\<close>

definition tracked_y :: position where
  "tracked_y =
     \<lparr>symbol = ''Y'', direction = ''SHORT'', entryPrice = 50, quantity = 4,
      takeProfit = 49, stopLoss = 51, orderId = Some ''E2'', timestamp = 2000,
      tpOrderId = Some ''TP_SET_TRADING_STOP'', slOrderId = Some ''SL_SET_TRADING_STOP''\<rparr>"

definition ledger_xy :: ledger where
  "ledger_xy =
     \<lparr>openPositions = [(''X'', tracked_x), (''Y'', tracked_y)], closedPositions = [],
      monitoringInterval = True\<rparr>"

definition view_none :: exchangeView where
  "view_none = \<lparr>livePositions = Inr [], tradeHistory = (\<lambda>symb. Inr [])\<rparr>"

text \<open>The argument that opens the long position tracked above.\<close>

definition data_x :: positionData where
  "data_x =
     \<lparr>pd_symbol = ''X'', pd_direction = ''LONG'', pd_entryPrice = 100, pd_quantity = 2,
      pd_takeProfit = 201 / 2, pd_stopLoss = 997 / 10, pd_orderId = Some ''E1'',
      pd_timestamp = Some 1000, pd_tpOrderId = Some ''TP_SET_TRADING_STOP'',
      pd_slOrderId = Some ''SL_SET_TRADING_STOP''\<rparr>"

definition dry_config :: config where
  "dry_config = default_config\<lparr>trading_dryRun := True\<rparr>"

section \<open>Trading hours\<close>

text \<open>
  Claim C5. With the trading hours enabled, the window is active at the UTC hour \<open>now\<close>
  exactly when the end hour lies after the start hour and \<open>now\<close> is from the start hour
  up to, not including, the end hour, or else (a window across midnight) when \<open>now\<close> is
  at or after the start hour or before the end hour. With the window from 6 to 22 the
  hours 5 and 22 are inactive and the hours 6 and 21 are active; with the window from 22
  to 6 the hours 23 and 5 are active and the hour 10 is not.
\<close>

theorem trading_hours_window:
  assumes "tradingHours_enabled cfg"
  shows "isTradingHoursActive cfg now =
           (if tradingHours_endHour cfg > tradingHours_startHour cfg
            then tradingHours_startHour cfg \<le> now \<and> now < tradingHours_endHour cfg
            else now \<ge> tradingHours_startHour cfg \<or> now < tradingHours_endHour cfg)
         \<and> \<not> isTradingHoursActive day_window 5 \<and> \<not> isTradingHoursActive day_window 22
         \<and> isTradingHoursActive day_window 6 \<and> isTradingHoursActive day_window 21
         \<and> isTradingHoursActive night_window 23 \<and> isTradingHoursActive night_window 5
         \<and> \<not> isTradingHoursActive night_window 10"
  using assms
  by (simp add: isTradingHoursActive_def day_window_def night_window_def default_config_def Let_def)

theorem trading_hours_window_witness:
  "tradingHours_enabled day_window \<and> isTradingHoursActive day_window 6 \<and>
   \<not> isTradingHoursActive day_window 22"
proof -
  have enabled: "tradingHours_enabled day_window"
    by (simp add: day_window_def)
  from trading_hours_window [OF enabled, of 6] trading_hours_window [OF enabled, of 22]
  show ?thesis using enabled by simp
qed

section \<open>Signal validation\<close>

lemmas string_eval = Let_def isSymbolAllowed_def toUpperCase_def upper_char_def trim_def is_space_def

text \<open>
  Claim C6. Signal validation runs its checks in the fixed order symbol allow-list,
  direction, trading hours, no open position for the symbol, open-position count below the
  maximum, daily-trade count below the maximum, balance above zero, instrument tradable.
  It returns the rejection of the first check that fails and is valid when none does.
  Checks after the failing one are not evaluated: of the two checks that query the
  exchange, only those reached send their query. The ledger is left as it was.
\<close>

theorem validateSignal_order:
  "fst (validateSignal cfg now ex sg b) = first_failure (spec_checks cfg now ex sg b) \<and>
   calls (snd (validateSignal cfg now ex sg b)) =
     calls b @ spec_queries (sg_symbol sg) (checks_run (spec_checks cfg now ex sg b)) \<and>
   positionService (snd (validateSignal cfg now ex sg b)) = positionService b"
proof -
  have result: "fst (validateSignal cfg now ex sg b) = first_failure (spec_checks cfg now ex sg b)"
    by (auto simp: validateSignal_def validateBalance_def validateInstrument_def
        first_failure_def spec_checks_def Let_def hasOpenPosition_def getOpenPositionsCount_def
        split: sum.splits)
  have queries: "calls (snd (validateSignal cfg now ex sg b)) =
     calls b @ spec_queries (sg_symbol sg) (checks_run (spec_checks cfg now ex sg b))"
    by (auto simp: validateSignal_def validateBalance_def validateInstrument_def
        checks_run_def spec_queries_def request_def spec_checks_def Let_def
        hasOpenPosition_def getOpenPositionsCount_def split: sum.splits)
  have frame: "positionService (snd (validateSignal cfg now ex sg b)) = positionService b"
    by (auto simp: validateSignal_def validateBalance_def validateInstrument_def
        request_def Let_def split: sum.splits)
  from result queries frame show ?thesis by simp
qed

theorem validateSignal_order_witness:
  "fst (validateSignal default_config 0 calm_exchange ada_long fresh_bot) = Valid \<and>
   calls (snd (validateSignal default_config 0 calm_exchange ada_long fresh_bot)) =
     [GetUSDTBalance, GetSymbolInfo ''ADAUSDT''] \<and>
   fst (validateSignal day_window 0 calm_exchange ada_long fresh_bot) =
     Invalid (OutsideTradingHours (getTradingHoursInfo day_window 0)) \<and>
   calls (snd (validateSignal day_window 0 calm_exchange ada_long fresh_bot)) = []"
proof -
  have open_hours: "first_failure (spec_checks default_config 0 calm_exchange ada_long fresh_bot) = Valid"
    by (simp add: first_failure_def spec_checks_def default_config_def calm_exchange_def
        ada_long_def fresh_bot_def newPositionService_def unit_lots_def string_eval
        isTradingHoursActive_def)
  have open_run: "checks_run (spec_checks default_config 0 calm_exchange ada_long fresh_bot) = 8"
    by (simp add: checks_run_def spec_checks_def default_config_def calm_exchange_def
        ada_long_def fresh_bot_def newPositionService_def unit_lots_def string_eval
        isTradingHoursActive_def)
  have shut_hours: "first_failure (spec_checks day_window 0 calm_exchange ada_long fresh_bot) =
      Invalid (OutsideTradingHours (getTradingHoursInfo day_window 0))"
    by (simp add: first_failure_def spec_checks_def day_window_def default_config_def
        ada_long_def string_eval isTradingHoursActive_def getUTCHours_def)
  have shut_run: "checks_run (spec_checks day_window 0 calm_exchange ada_long fresh_bot) = 3"
    by (simp add: checks_run_def spec_checks_def day_window_def default_config_def
        ada_long_def string_eval isTradingHoursActive_def getUTCHours_def)
  have "sg_symbol ada_long = ''ADAUSDT''" and "calls fresh_bot = []"
    by (simp_all add: ada_long_def fresh_bot_def)
  with validateSignal_order [of default_config 0 calm_exchange ada_long fresh_bot]
       validateSignal_order [of day_window 0 calm_exchange ada_long fresh_bot]
  show ?thesis
    by (simp add: open_hours open_run shut_hours shut_run spec_queries_def)
qed

section \<open>Setting the leverage\<close>

text \<open>The two blocks of \<^verbatim>\<open>setLeverage\<close> taken together.\<close>

lemma setLeverage_iff:
  "setLeverage symb lev outcome =
     (case outcome of
        Inl message \<Rightarrow> if mentionsNotModified message then Inr True else Inl message
      | Inr r \<Rightarrow> if alreadySet r \<or> retCode r = 0 \<or> mentionsNotModified (retMsg r) then Inr True
                 else Inl (''Failed to set leverage: '' @ retMsg r))"
  by (cases outcome)
     (auto simp: setLeverage_def setLeverage_try_def alreadySet_def mentionsNotModified_def)

lemma openPosition_calls_before_orders:
  assumes "setLeverage (sg_symbol sg) (risk_leverage cfg) (leverageOutcome ex) = Inl e"
  shows "filter is_order (calls (snd (openPosition cfg now ex sg b))) = filter is_order (calls b)"
  using assms
  by (auto simp: openPosition_def sizeAndOpen_def placeOrders_def simulateOrders_def request_def
        countTrade_def track_def Let_def split: sum.splits)

lemma openPosition_ledger_leverage:
  assumes "setLeverage (sg_symbol sg) (risk_leverage cfg) (leverageOutcome ex) = Inl e"
    and "\<not> trading_dryRun cfg"
  shows "positionService (snd (openPosition cfg now ex sg b)) = positionService b"
    and "\<exists>err. fst (openPosition cfg now ex sg b) = Inl err"
  using assms
  by (auto simp: openPosition_def sizeAndOpen_def placeOrders_def request_def
        Let_def split: sum.splits)

text \<open>
  What does hold of \<^verbatim>\<open>setLeverage\<close>. A response that says "already set" gives success
  for every symbol and leverage, so a first call that is accepted and a second that is
  answered "already set" both succeed. A response with a return code that is not zero,
  that does not say "already set" and whose message mentions neither marker makes the
  call throw, and \<^verbatim>\<open>openPosition\<close> then fails with no order request sent and the ledger
  as it was.
\<close>

theorem setLeverage_outcomes:
  "(alreadySet r0 \<longrightarrow> setLeverage symb lev (Inr r0) = Inr True) \<and>
   (retCode r1 = 0 \<and> alreadySet r2 \<longrightarrow>
      setLeverage symb lev (Inr r1) = Inr True \<and> setLeverage symb lev (Inr r2) = Inr True) \<and>
   (leverageOutcome ex = Inr r \<and> retCode r \<noteq> 0 \<and> \<not> alreadySet r \<and>
      \<not> mentionsNotModified (retMsg r) \<and> \<not> trading_dryRun cfg \<longrightarrow>
      setLeverage symb lev (Inr r) = Inl (''Failed to set leverage: '' @ retMsg r) \<and>
      fst (placeOrders cfg now ex sg pp b) =
        Inl (ExchangeError (''Failed to set leverage: '' @ retMsg r)) \<and>
      (\<exists>err. fst (openPosition cfg now ex sg b) = Inl err) \<and>
      filter is_order (calls (snd (openPosition cfg now ex sg b))) = filter is_order (calls b) \<and>
      positionService (snd (openPosition cfg now ex sg b)) = positionService b)"
proof (intro conjI impI)
  assume "alreadySet r0"
  then show "setLeverage symb lev (Inr r0) = Inr True"
    by (simp add: setLeverage_iff)
next
  assume "retCode r1 = 0 \<and> alreadySet r2"
  then show "setLeverage symb lev (Inr r1) = Inr True" and "setLeverage symb lev (Inr r2) = Inr True"
    by (simp_all add: setLeverage_iff)
next
  assume h: "leverageOutcome ex = Inr r \<and> retCode r \<noteq> 0 \<and> \<not> alreadySet r \<and>
      \<not> mentionsNotModified (retMsg r) \<and> \<not> trading_dryRun cfg"
  then have fails: "\<And>s l. setLeverage s l (leverageOutcome ex) = Inl (''Failed to set leverage: '' @ retMsg r)"
    by (simp add: setLeverage_iff)
  from h show "setLeverage symb lev (Inr r) = Inl (''Failed to set leverage: '' @ retMsg r)"
    by (simp add: setLeverage_iff)
  from fails show "fst (placeOrders cfg now ex sg pp b) =
        Inl (ExchangeError (''Failed to set leverage: '' @ retMsg r))"
    by (simp add: placeOrders_def Let_def)
  from fails h show "\<exists>err. fst (openPosition cfg now ex sg b) = Inl err"
    by (intro openPosition_ledger_leverage(2)) auto
  from fails show "filter is_order (calls (snd (openPosition cfg now ex sg b))) = filter is_order (calls b)"
    by (intro openPosition_calls_before_orders)
  from fails h show "positionService (snd (openPosition cfg now ex sg b)) = positionService b"
    by (intro openPosition_ledger_leverage(1)) auto
qed

theorem setLeverage_outcomes_witness:
  "alreadySet not_modified \<and> setLeverage ''ADAUSDT'' 20 (Inr not_modified) = Inr True \<and>
   retCode accepted = 0 \<and> setLeverage ''ADAUSDT'' 20 (Inr accepted) = Inr True \<and>
   leverageOutcome leverage_refused = Inr refused \<and> retCode refused \<noteq> 0 \<and>
   \<not> alreadySet refused \<and> \<not> mentionsNotModified (retMsg refused) \<and>
   \<not> trading_dryRun default_config \<and>
   setLeverage ''ADAUSDT'' 20 (Inr refused) = Inl ''Failed to set leverage: params error'' \<and>
   filter is_order (calls (snd (openPosition default_config 0 leverage_refused ada_long fresh_bot))) = [] \<and>
   positionService (snd (openPosition default_config 0 leverage_refused ada_long fresh_bot)) =
     newPositionService"
proof -
  have already: "alreadySet not_modified"
    by (simp add: alreadySet_def not_modified_def)
  have first: "retCode accepted = 0"
    by (simp add: accepted_def)
  have other: "leverageOutcome leverage_refused = Inr refused \<and> retCode refused \<noteq> 0 \<and>
      \<not> alreadySet refused \<and> \<not> mentionsNotModified (retMsg refused) \<and>
      \<not> trading_dryRun default_config"
    by (simp add: leverage_refused_def calm_exchange_def refused_def alreadySet_def
        mentionsNotModified_def default_config_def)
  have start: "calls fresh_bot = []" "positionService fresh_bot = newPositionService"
      "retMsg refused = ''params error''"
    by (simp_all add: fresh_bot_def refused_def)
  from setLeverage_outcomes [of not_modified "''ADAUSDT''" 20 accepted not_modified
         leverage_refused refused default_config 0 ada_long ada_params fresh_bot]
       already first other start
  show ?thesis by simp
qed

section \<open>Rounding\<close>






















section \<open>Position sizing\<close>

text \<open>The factor of the quantity rounding: the tick size itself from 1 upwards, its inverse below.\<close>

lemma quantity_factor: "0 < t \<Longrightarrow> 10 powr \<bar>log 10 t\<bar> = (if 1 \<le> t then t else 1 / t)"
  by (auto simp: abs_if powr_minus not_le inverse_eq_divide)

lemma roundQuantity_tick:
  "0 < t \<Longrightarrow> roundQuantity q t = (if 1 \<le> t then js_round (q * t) / t else js_round (q / t) * t)"
  by (simp add: roundQuantity_def roundToDecimal_def Let_def quantity_factor del: abs_if)

lemmas risk_eval = calculatePositionParameters_def isValidNumber_def limitedQuantity_def js_or_def effectiveMaxQty_def rawQuantity_def positionSize_def requiredMargin_def riskPositionSize_def riskAmount_def stopLossDistance_def stopLossPrice_def takeProfitPrice_def roundPrice_def roundToDecimal_def js_round_def Let_def

text \<open>
  Claim C3. With a risk of 2.5 percent, a leverage of 20, a stop loss of 0.3 percent and
  a take profit of 0.5 percent, the sizing of a long position at entry price 100 on a
  balance of 1000 has risk amount 25, stop loss price 99.7, stop distance 0.3, notional
  size 25 / 0.3 * 100, which is 8333.33 to two decimals, required margin 416.67 to two
  decimals, which is within the balance so that the size is not cut down, quantity 83.33 to
  two decimals before the rounding to the tick size, and take profit price 100.5. The last
  conjunct is what the whole calculation returns for an instrument without constraints.
\<close>

theorem sizing_scenario:
  assumes "risk_percentage cfg = 2.5" and "risk_leverage cfg = 20"
    and "risk_stopLossPercent cfg = 0.3" and "risk_takeProfitPercent cfg = 0.5"
  shows "riskAmount cfg 1000 = 25 \<and>
         stopLossPrice cfg 100 ''LONG'' = 99.7 \<and>
         stopLossDistance cfg 100 ''LONG'' = 0.3 \<and>
         riskPositionSize cfg 1000 100 ''LONG'' = 25 / 0.3 * 100 \<and>
         roundToDecimal (riskPositionSize cfg 1000 100 ''LONG'') 2 = 8333.33 \<and>
         roundToDecimal (requiredMargin cfg 1000 100 ''LONG'') 2 = 416.67 \<and>
         requiredMargin cfg 1000 100 ''LONG'' \<le> 1000 \<and>
         positionSize cfg 1000 100 ''LONG'' = riskPositionSize cfg 1000 100 ''LONG'' \<and>
         roundToDecimal (rawQuantity cfg 1000 100 ''LONG'') 2 = 83.33 \<and>
         takeProfitPrice cfg 100 ''LONG'' = 100.5 \<and>
         calculatePositionParameters cfg 1000 100 ''LONG'' no_info =
           Inr \<lparr>pp_entryPrice = 100, pp_quantity = 83.3333, pp_positionSize = 25 / 0.3 * 100,
                 pp_leverage = 20, pp_requiredMargin = 416.6665, pp_stopLoss = 99.7,
                 pp_takeProfit = 100.5, pp_riskAmount = 25, pp_direction = ''LONG''\<rparr>"
proof -
  have steps: "riskAmount cfg 1000 = 25" "stopLossPrice cfg 100 ''LONG'' = 99.7"
      "stopLossDistance cfg 100 ''LONG'' = 0.3" "takeProfitPrice cfg 100 ''LONG'' = 100.5"
    using assms by (simp_all add: riskAmount_def stopLossPrice_def stopLossDistance_def takeProfitPrice_def)
  have size: "riskPositionSize cfg 1000 100 ''LONG'' = 25 / 0.3 * 100"
    by (simp add: riskPositionSize_def steps)
  have margin: "requiredMargin cfg 1000 100 ''LONG'' = 25 / 0.3 * 100 / 20"
    using assms by (simp add: requiredMargin_def size)
  have kept: "positionSize cfg 1000 100 ''LONG'' = riskPositionSize cfg 1000 100 ''LONG''"
    by (simp add: positionSize_def margin)
  have qty: "rawQuantity cfg 1000 100 ''LONG'' = 25 / 0.3"
    by (simp add: rawQuantity_def kept size)
  have two: "roundToDecimal (25 / 0.3 * 100) 2 = 8333.33"
      "roundToDecimal (25 / 0.3 * 100 / 20) 2 = 416.67" "roundToDecimal (25 / 0.3) 2 = 83.33"
    by (simp_all add: roundToDecimal_def js_round_def Let_def)
  have limited: "limitedQuantity cfg 1000 100 ''LONG'' no_info = (83.3333, 25 / 0.3 * 100)"
    by (simp add: limitedQuantity_def no_info_def js_or_def effectiveMaxQty_def
        roundQuantity_tick js_round_def qty kept size Let_def)
  have "pricePrecision no_info = None"
    by (simp add: no_info_def)
  have whole: "calculatePositionParameters cfg 1000 100 ''LONG'' no_info =
           Inr \<lparr>pp_entryPrice = 100, pp_quantity = 83.3333, pp_positionSize = 25 / 0.3 * 100,
                 pp_leverage = 20, pp_requiredMargin = 416.6665, pp_stopLoss = 99.7,
                 pp_takeProfit = 100.5, pp_riskAmount = 25, pp_direction = ''LONG''\<rparr>"
    using assms(2) \<open>pricePrecision no_info = None\<close>
    by (simp add: calculatePositionParameters_def isValidNumber_def limited steps
        roundPrice_def roundToDecimal_def js_round_def Let_def)
  have rounded: "roundToDecimal (riskPositionSize cfg 1000 100 ''LONG'') 2 = 8333.33"
      "roundToDecimal (requiredMargin cfg 1000 100 ''LONG'') 2 = 416.67"
      "roundToDecimal (rawQuantity cfg 1000 100 ''LONG'') 2 = 83.33"
    by (simp_all only: size margin qty two)
  have within: "requiredMargin cfg 1000 100 ''LONG'' \<le> 1000"
    by (simp add: margin)
  show ?thesis
    by (intro conjI) (rule steps size rounded within kept whole)+
qed

theorem sizing_scenario_witness:
  "risk_percentage default_config = 2.5 \<and> risk_leverage default_config = 20 \<and>
   risk_stopLossPercent default_config = 0.3 \<and> risk_takeProfitPercent default_config = 0.5 \<and>
   riskAmount default_config 1000 = 25 \<and>
   stopLossPrice default_config 100 ''LONG'' = 99.7 \<and>
   takeProfitPrice default_config 100 ''LONG'' = 100.5 \<and>
   roundToDecimal (rawQuantity default_config 1000 100 ''LONG'') 2 = 83.33"
proof -
  have cfg: "risk_percentage default_config = 2.5" "risk_leverage default_config = 20"
    "risk_stopLossPercent default_config = 0.3" "risk_takeProfitPercent default_config = 0.5"
    by (simp_all add: default_config_def)
  from sizing_scenario [OF cfg] cfg show ?thesis
    by blast
qed

text \<open>
  Claim C2. For every valid input and every set of instrument constraints the returned
  quantity lies between the minimum and the maximum quantity and is an exact multiple of
  the tick size, and the required margin is within the balance unless the calculation
  fails for insufficient balance. The code does not keep this for a tick size above 1,
  where the number of decimals is taken from the absolute value of the logarithm: for an
  instrument traded in lots of ten the quantity 83.33 is rounded to 83.3, which is
  returned although it is no multiple of ten.
\<close>

theorem quantity_off_the_tick:
  "calculatePositionParameters default_config 1000 100 ''LONG'' ten_lots =
     Inr \<lparr>pp_entryPrice = 100, pp_quantity = 83.3, pp_positionSize = 25 / 0.3 * 100,
           pp_leverage = 20, pp_requiredMargin = 416.5, pp_stopLoss = 99.7,
           pp_takeProfit = 100.5, pp_riskAmount = 25, pp_direction = ''LONG''\<rparr> \<and>
   \<not> multiple_of_tick 83.3 10 \<and> multiple_of_tick 80 10"
  by (simp add: risk_eval default_config_def ten_lots_def roundQuantity_tick multiple_of_tick_def)

theorem quantity_off_the_tick_witness:
  "\<exists>pp. calculatePositionParameters default_config 1000 100 ''LONG'' ten_lots = Inr pp \<and>
        \<not> multiple_of_tick (pp_quantity pp) 10"
  using quantity_off_the_tick by simp

lemma multiple_of_tick_round: "t \<noteq> 0 \<Longrightarrow> multiple_of_tick (js_round x * t) t"
  by (simp add: multiple_of_tick_def js_round_def)

lemma stopLossDistance_eq:
  "stopLossDistance cfg price dir = \<bar>price\<bar> * \<bar>risk_stopLossPercent cfg / 100\<bar>"
  by (simp add: stopLossDistance_def stopLossPrice_def abs_mult [symmetric] algebra_simps)

text \<open>
  For a tick size of at most 1 the claim holds: with a minimum not above the maximum, both
  on the tick grid, a valid input and a stop loss percentage that is not zero, the
  calculation either returns a quantity within the limits and on the grid with a margin
  within the balance, or fails for insufficient balance.
\<close>

theorem sizing_within_constraints:
  assumes settings: "config_valid cfg"
    and valid: "balance > 0" "price > 0" "dir = ''LONG'' \<or> dir = ''SHORT''"
    and stop: "risk_stopLossPercent cfg \<noteq> 0"
    and tick: "tickSize info = Some t" "0 < t" "t \<le> 1"
    and limits: "minQty info = Some lo" "maxQty info = Some hi" "lo \<le> hi" "0 < hi"
    and grid: "multiple_of_tick lo t" "multiple_of_tick hi t"
  shows "(\<exists>pp. calculatePositionParameters cfg balance price dir info = Inr pp \<and>
            lo \<le> pp_quantity pp \<and> pp_quantity pp \<le> hi \<and>
            multiple_of_tick (pp_quantity pp) t \<and> pp_requiredMargin pp \<le> balance) \<or>
         (\<exists>m. calculatePositionParameters cfg balance price dir info =
                 Inl (InsufficientBalance m balance) \<and> m > balance)"
proof -
  obtain q s where lq: "limitedQuantity cfg balance price dir info = (q, s)"
    by (cases "limitedQuantity cfg balance price dir info")
  define q0 where "q0 = roundQuantity (rawQuantity cfg balance price dir) t"
  have minQ: "js_or (minQty info) 0 = lo"
    using limits by (simp add: js_or_def)
  have maxQ: "effectiveMaxQty info = Some hi"
    using limits by (simp add: effectiveMaxQty_def)
  have tk: "js_or (tickSize info) (1 / 10000) = t"
    using tick by (simp add: js_or_def)
  have q_cases: "q = (if (if q0 < lo then lo else q0) > hi then hi else (if q0 < lo then lo else q0))"
    using lq by (auto simp: limitedQuantity_def Let_def minQ maxQ tk q0_def split: if_splits)
  have q0_grid: "multiple_of_tick q0 t"
  proof (cases "t = 1")
    case True
    then show ?thesis
      using multiple_of_tick_round [of 1 "rawQuantity cfg balance price dir"]
      by (simp add: q0_def roundQuantity_tick)
  next
    case False
    with tick show ?thesis
      by (simp add: q0_def roundQuantity_tick multiple_of_tick_round)
  qed
  have range: "lo \<le> q" "q \<le> hi"
    using limits q_cases by (auto split: if_splits)
  have on_grid: "multiple_of_tick q t"
    using q_cases q0_grid grid by (auto split: if_splits)
  have dist: "\<not> stopLossDistance cfg price dir \<le> 0"
    using valid stop by (simp add: stopLossDistance_eq not_le zero_less_mult_iff)
  show ?thesis
    using valid dist lq range on_grid
    by (auto simp: calculatePositionParameters_def isValidNumber_def Let_def)
qed

lemma ada_sizing: "calculatePositionParameters default_config 1000 100 ''LONG'' unit_lots = Inr ada_params"
  by (simp add: risk_eval default_config_def unit_lots_def ada_params_def roundQuantity_tick)

theorem sizing_within_constraints_witness:
  "config_valid default_config \<and> (0::real) < 1000 \<and> (0::real) < 100 \<and> risk_stopLossPercent default_config \<noteq> 0 \<and>
   tickSize unit_lots = Some 1 \<and> minQty unit_lots = Some 1 \<and> maxQty unit_lots = Some 1000000 \<and>
   multiple_of_tick 1 1 \<and> multiple_of_tick 1000000 1 \<and>
   1 \<le> pp_quantity ada_params \<and> pp_quantity ada_params \<le> 1000000 \<and>
   multiple_of_tick (pp_quantity ada_params) 1 \<and> pp_requiredMargin ada_params \<le> 1000"
proof -
  have given: "config_valid default_config"
      "(0::real) < 1000" "(0::real) < 100" "''LONG'' = ''LONG'' \<or> ''LONG'' = ''SHORT''"
      "risk_stopLossPercent default_config \<noteq> 0"
      "tickSize unit_lots = Some 1" "(0::real) < 1" "(1::real) \<le> 1"
      "minQty unit_lots = Some 1" "maxQty unit_lots = Some 1000000"
      "(1::real) \<le> 1000000" "(0::real) < 1000000"
      "multiple_of_tick 1 1" "multiple_of_tick 1000000 1"
    by (simp_all add: config_valid_def default_config_def unit_lots_def multiple_of_tick_def)
  from sizing_within_constraints [OF given] ada_sizing
  have "1 \<le> pp_quantity ada_params \<and> pp_quantity ada_params \<le> 1000000 \<and>
        multiple_of_tick (pp_quantity ada_params) 1 \<and> pp_requiredMargin ada_params \<le> 1000"
    by auto
  with given show ?thesis by blast
qed

section \<open>The position ledger\<close>

lemma update_others:
  "filter (\<lambda>e. fst e \<noteq> k) (AList.update k v al) = filter (\<lambda>e. fst e \<noteq> k) al"
  by (induct al) auto

lemma update_count:
  "distinct (map fst al) \<Longrightarrow> length (filter (\<lambda>e. fst e = k) (AList.update k v al)) = 1"
proof (induct al)
  case Nil
  then show ?case by simp
next
  case (Cons p ps)
  then show ?case
    by (auto simp: filter_empty_conv image_iff)
qed

lemma delete_absent: "map_of al k = None \<Longrightarrow> AList.delete k al = al"
  by (induct al) (auto simp: AList.delete_eq split: if_splits)

lemma removeOpenPosition_open:
  "openPositions (snd (removeOpenPosition symb l)) = AList.delete symb (openPositions l)"
  by (simp add: removeOpenPosition_def delete_absent split: option.splits)

lemma removeOpenPosition_closed:
  "closedPositions (snd (removeOpenPosition symb l)) = closedPositions l"
  by (simp add: removeOpenPosition_def split: option.splits)

text \<open>What one visit of the monitoring loop appends to the history.\<close>

lemma handlePositionClosed_closed:
  "closedPositions (handlePositionClosed now history symb tracked l) =
     closedPositions l @
       (case history of Inl message \<Rightarrow> []
        | Inr trades \<Rightarrow> [closedAtNow now (closedPositionDataOf now symb tracked trades)])"
  by (simp add: handlePositionClosed_def removeOpenPosition_closed addClosedPosition_def
      split: sum.splits)

lemma handlePositionClosed_open:
  "openPositions (handlePositionClosed now history symb tracked l) =
     (case history of Inl message \<Rightarrow> openPositions l
      | Inr trades \<Rightarrow> AList.delete symb (openPositions l))"
  by (simp add: handlePositionClosed_def removeOpenPosition_open addClosedPosition_def
      split: sum.splits)

lemma checkPosition_closed:
  "\<exists>added. closedPositions (checkPosition now ex positions entry l) = closedPositions l @ added \<and>
           length added \<le> 1"
  by (auto simp: checkPosition_def Let_def handlePositionClosed_closed updatePositionData_def
      split: option.splits sum.splits)

lemma checkPosition_open:
  "openPositions (checkPosition now ex positions entry l) = openPositions l \<or>
   openPositions (checkPosition now ex positions entry l) = AList.delete (fst entry) (openPositions l)"
  by (auto simp: checkPosition_def Let_def handlePositionClosed_open updatePositionData_def
      split: option.splits sum.splits)

lemma checkPosition_distinct:
  "distinct (map fst (openPositions l)) \<Longrightarrow>
   distinct (map fst (openPositions (checkPosition now ex positions entry l)))"
  using checkPosition_open [of now ex positions entry l]
  by (auto simp: AList.distinct_delete)

lemma fold_checkPosition_distinct:
  "distinct (map fst (openPositions l)) \<Longrightarrow>
   distinct (map fst (openPositions (fold (checkPosition now ex positions) entries l)))"
  by (induction entries arbitrary: l) (simp_all add: checkPosition_distinct)

lemma fold_checkPosition_closed:
  "\<exists>added. closedPositions (fold (checkPosition now ex positions) entries l) =
             closedPositions l @ added \<and> length added \<le> length entries"
proof (induction entries arbitrary: l)
  case Nil
  then show ?case by simp
next
  case (Cons e es)
  obtain a where a: "closedPositions (checkPosition now ex positions e l) = closedPositions l @ a"
      "length a \<le> 1"
    using checkPosition_closed by blast
  obtain b where b: "closedPositions (fold (checkPosition now ex positions) es
        (checkPosition now ex positions e l)) =
      closedPositions (checkPosition now ex positions e l) @ b" "length b \<le> length es"
    using Cons.IH by blast
  have "closedPositions (fold (checkPosition now ex positions) (e # es) l) =
      closedPositions l @ (a @ b) \<and> length (a @ b) \<le> length (e # es)"
    using a b by simp
  then show ?case by blast
qed

lemma checkPositions_distinct:
  "distinct (map fst (openPositions l)) \<Longrightarrow> distinct (map fst (openPositions (checkPositions now ex l)))"
  by (auto simp: checkPositions_def fold_checkPosition_distinct split: sum.splits)

lemma checkPositions_closed:
  "\<exists>added. closedPositions (checkPositions now ex l) = closedPositions l @ added \<and>
           length added \<le> length (openPositions l)"
  using fold_checkPosition_closed [of now ex _ "openPositions l" l]
  by (auto simp: checkPositions_def split: sum.splits)

lemma run_op_distinct:
  "distinct (map fst (openPositions l)) \<Longrightarrow> distinct (map fst (openPositions (run_op op l)))"
  by (cases op)
     (simp_all add: addOpenPosition_def AList.distinct_update removeOpenPosition_open
        AList.distinct_delete addClosedPosition_def handlePositionClosed_open updatePositionData_def
        checkPositions_distinct startMonitoring_def stopMonitoring_def resetDailyStatistics_def
        split: sum.splits)

lemma run_ops_distinct:
  "distinct (map fst (openPositions l)) \<Longrightarrow> distinct (map fst (openPositions (run_ops ops l)))"
  unfolding run_ops_def
  by (induction ops arbitrary: l) (simp_all add: run_op_distinct)

text \<open>
  Claim C10. For every ledger state and every position record, \<^verbatim>\<open>addOpenPosition\<close>
  stores the record under its symbol, in place of whatever was open for that symbol; it
  cannot fail and adds no second entry. The entries of all other symbols and the history
  of closed positions stay as they were. So a ledger with one entry per symbol keeps one
  entry per symbol, with exactly one for the symbol added, and no run of operations from
  the empty ledger of the constructor ever holds two open positions for one symbol.
\<close>

theorem addOpenPosition_replaces:
  "map_of (openPositions (addOpenPosition now pd l)) (pd_symbol pd) = Some (trackedPositionOf now pd) \<and>
   filter (\<lambda>e. fst e \<noteq> pd_symbol pd) (openPositions (addOpenPosition now pd l)) =
     filter (\<lambda>e. fst e \<noteq> pd_symbol pd) (openPositions l) \<and>
   closedPositions (addOpenPosition now pd l) = closedPositions l \<and>
   (distinct (map fst (openPositions l)) \<longrightarrow>
      distinct (map fst (openPositions (addOpenPosition now pd l))) \<and>
      length (filter (\<lambda>e. fst e = pd_symbol pd) (openPositions (addOpenPosition now pd l))) = 1) \<and>
   distinct (map fst (openPositions (run_ops ops newPositionService)))"
proof -
  have start: "distinct (map fst (openPositions newPositionService))"
    by (simp add: newPositionService_def)
  show ?thesis
    by (simp add: addOpenPosition_def AList.update_conv' update_others update_count
        AList.distinct_update run_ops_distinct [OF start])
qed

theorem addOpenPosition_replaces_witness:
  "distinct (map fst (openPositions ledger_xy)) \<and>
   openPositions (addOpenPosition 5000 data_x ledger_xy) = [(''X'', tracked_x), (''Y'', tracked_y)] \<and>
   map_of (openPositions (addOpenPosition 5000 data_x ledger_xy)) ''X'' = Some tracked_x \<and>
   length (filter (\<lambda>e. fst e = ''X'') (openPositions (addOpenPosition 5000 data_x ledger_xy))) = 1"
proof -
  have keys: "distinct (map fst (openPositions ledger_xy))"
    by (simp add: ledger_xy_def)
  have same: "trackedPositionOf 5000 data_x = tracked_x" and key: "pd_symbol data_x = ''X''"
    by (simp_all add: trackedPositionOf_def data_x_def tracked_x_def timestamp_or_now_def)
  have result: "openPositions (addOpenPosition 5000 data_x ledger_xy) =
      [(''X'', tracked_x), (''Y'', tracked_y)]"
    by (simp add: addOpenPosition_def same key ledger_xy_def)
  from addOpenPosition_replaces [of 5000 data_x ledger_xy "[]"] keys same key
  have "map_of (openPositions (addOpenPosition 5000 data_x ledger_xy)) ''X'' = Some tracked_x \<and>
     length (filter (\<lambda>e. fst e = ''X'') (openPositions (addOpenPosition 5000 data_x ledger_xy))) = 1"
    by simp
  with keys result show ?thesis by blast
qed

section \<open>The history of closed positions\<close>

lemma checkPosition_open_eq:
  "openPositions (checkPosition now ex positions entry l) =
     (if closedThisTick ex positions (fst entry) then AList.delete (fst entry) (openPositions l)
      else openPositions l)"
  by (simp add: checkPosition_def Let_def handlePositionClosed_open updatePositionData_def
      closedThisTick_def reportedClosed_def split: option.splits sum.splits)

lemma fold_checkPosition_open_only:
  "openPositions l = openPositions l' \<Longrightarrow>
   openPositions (fold (checkPosition now ex positions) entries l) =
   openPositions (fold (checkPosition now ex positions) entries l')"
proof (induction entries arbitrary: l l')
  case Nil
  then show ?case by simp
next
  case (Cons e es)
  have "openPositions (checkPosition now ex positions e l) =
        openPositions (checkPosition now ex positions e l')"
    by (simp only: checkPosition_open_eq Cons.prems)
  from Cons.IH [OF this] show ?case by simp
qed

lemma run_op_history_free:
  "openPositions (run_op op (l\<lparr>closedPositions := cs\<rparr>)) = openPositions (run_op op l)"
proof (cases op)
  case (CheckPositions now ex)
  have "openPositions (l\<lparr>closedPositions := cs\<rparr>) = openPositions l"
    by simp
  from fold_checkPosition_open_only [OF this] CheckPositions show ?thesis
    by (simp add: checkPositions_def split: sum.splits)
qed (simp_all add: addOpenPosition_def removeOpenPosition_open addClosedPosition_def
      handlePositionClosed_open updatePositionData_def startMonitoring_def stopMonitoring_def
      resetDailyStatistics_def split: sum.splits)

lemmas ledger_eval = checkPositions_def checkPosition_def handlePositionClosed_def
  removeOpenPosition_def addClosedPosition_def closedAtNow_def closedPositionDataOf_def closeTrade_def
  calculatePnL_def calculatePnLPercent_def isValidNumber_def formatDuration_def string_of_int_def
  digit_char_def string_of_nat.simps position.extend_def closedPositionData.extend_def AList.delete_eq Let_def

lemma tick_x: "checkPositions 61000 view_x ledger_x = ledger_after_x"
  by (simp add: ledger_x_def view_x_def tracked_x_def trades_x_def ledger_after_x_def
      closed_x_def ledger_eval)


lemma tick_xy: "length (closedPositions (checkPositions 61000 view_none ledger_xy)) = 2"
  by (simp add: ledger_xy_def view_none_def checkPositions_def checkPosition_def
      handlePositionClosed_closed)

section \<open>Reconciliation\<close>

text \<open>One visit of the loop, and the whole loop, as equations on the two parts of the ledger.\<close>

lemma checkPosition_closed_eq:
  "closedPositions (checkPosition now ex positions entry l) =
     closedPositions l @ (if closedThisTick ex positions (fst entry) then [closureOf now ex entry] else [])"
  by (simp add: checkPosition_def Let_def handlePositionClosed_closed updatePositionData_def
      closedThisTick_def reportedClosed_def closureOf_def tradesOf_def split: option.splits sum.splits)

lemma fold_checkPosition_closed_eq:
  "closedPositions (fold (checkPosition now ex positions) entries l) =
     closedPositions l @
       map (closureOf now ex) (filter (\<lambda>e. closedThisTick ex positions (fst e)) entries)"
  by (induction entries arbitrary: l) (simp_all add: checkPosition_closed_eq)

lemma fold_checkPosition_open_eq:
  "openPositions (fold (checkPosition now ex positions) entries l) =
     filter (\<lambda>x. \<not> (fst x \<in> fst ` set entries \<and> closedThisTick ex positions (fst x)))
       (openPositions l)"
proof (induction entries arbitrary: l)
  case Nil
  then show ?case by simp
next
  case (Cons e es)
  show ?case
    by (auto simp: Cons.IH checkPosition_open_eq AList.delete_eq intro!: filter_cong)
qed

lemma checkPositions_eq:
  assumes "livePositions ex = Inr positions"
  shows "openPositions (checkPositions now ex l) =
           filter (\<lambda>x. \<not> closedThisTick ex positions (fst x)) (openPositions l)"
    and "closedPositions (checkPositions now ex l) =
           closedPositions l @
             map (closureOf now ex)
               (filter (\<lambda>e. closedThisTick ex positions (fst e)) (openPositions l))"
proof -
  show "openPositions (checkPositions now ex l) =
           filter (\<lambda>x. \<not> closedThisTick ex positions (fst x)) (openPositions l)"
    using assms
    by (auto simp: checkPositions_def fold_checkPosition_open_eq intro!: filter_cong)
  show "closedPositions (checkPositions now ex l) =
           closedPositions l @
             map (closureOf now ex)
               (filter (\<lambda>e. closedThisTick ex positions (fst e)) (openPositions l))"
    using assms
    by (auto simp: checkPositions_def fold_checkPosition_closed_eq)
qed


lemma closeTrade_filter:
  "closeTrade symb tracked trades =
     (case filter (closes symb tracked) trades of [] \<Rightarrow> None | t # rest \<Rightarrow> Some t)"
  unfolding closeTrade_def
  by (induction trades) (auto simp: closes_def)

lemma newest_first_head:
  assumes "newest_first trades" and "filter P trades = t # rest" and "t' \<in> set trades" and "P t'"
  shows "t_execTime t' \<le> t_execTime t"
  using assms
proof (induction trades)
  case Nil
  then show ?case by simp
next
  case (Cons a as)
  from Cons.prems(1) have tail: "newest_first as" and later: "\<forall>y\<in>set as. t_execTime y \<le> t_execTime a"
    by (auto simp: newest_first_def sorted_append)
  show ?case
  proof (cases "P a")
    case True
    with Cons.prems(2) have "t = a" by simp
    with Cons.prems(3) later show ?thesis by auto
  next
    case False
    with Cons.prems have "filter P as = t # rest" and "t' \<in> set as"
      by auto
    with Cons.IH tail Cons.prems(4) show ?thesis by blast
  qed
qed

lemma map_of_delete_same: "map_of (AList.delete k al) k = None"
  by (simp add: AList.delete_conv')

lemma exit_price_cases:
  "exitPrice (closedAtNow now (closedPositionDataOf now symb tracked trades)) =
     (case filter (closes symb tracked) trades of
        [] \<Rightarrow> entryPrice tracked
      | t # rest \<Rightarrow> t_execPrice t)"
  by (simp add: closedAtNow_def closedPositionDataOf_def closeTrade_filter Let_def
      closedPositionData.extend_def position.extend_def split: list.splits)

lemma closed_record_fields:
  "pnl (closedAtNow now (closedPositionDataOf now symb tracked trades)) =
     calculatePnL (entryPrice tracked)
       (exitPrice (closedAtNow now (closedPositionDataOf now symb tracked trades)))
       (quantity tracked) (direction tracked)"
  "pnlPercent (closedAtNow now (closedPositionDataOf now symb tracked trades)) =
     calculatePnLPercent (entryPrice tracked)
       (exitPrice (closedAtNow now (closedPositionDataOf now symb tracked trades)))
       (direction tracked)"
  "position.truncate (closedAtNow now (closedPositionDataOf now symb tracked trades)) = tracked"
  "closedAt (closedAtNow now (closedPositionDataOf now symb tracked trades)) = now"
  by (simp_all add: closedAtNow_def closedPositionDataOf_def Let_def
      closedPositionData.extend_def position.extend_def position.truncate_def)


lemma map_of_filter_key:
  "map_of (filter (\<lambda>x. P (fst x)) al) k = (if P k then map_of al k else None)"
  by (induction al) auto

lemma totalTrades_length: "totalTrades (getStatistics l) = int (length (closedPositions l))"
  by (simp add: getStatistics_def Let_def)

text \<open>
  Claim C4. When the exchange reports a tracked position with size zero, or does not list
  its symbol, the monitoring step closes it. The exit price is that of the most recent
  exchange trade on the side opposite to the position (a sale for a long, a purchase for
  a short), the exchange listing its trades newest first, and the entry price when there
  is no such trade. The realized profit is exit price minus entry price, times the
  quantity, for a long, and entry price minus exit price, times the quantity, for a short.
  The record, the tracked position with these fields added, is appended to the history of
  closed positions and the symbol leaves the open set, the entries of other symbols staying
  as they are, so \<^verbatim>\<open>totalTrades\<close> of the statistics rises by exactly one for this
  position. The same holds inside a whole tick of \<^verbatim>\<open>checkPositions\<close>, which counts one
  trade for every position it closes. The query of the trade history is taken to answer
  (an error there is logged and the position waits for the next tick) and prices are valid
  numbers, as \<^verbatim>\<open>calculatePnL\<close> demands.
\<close>

theorem reconciliation_closes:
  assumes tracked: "(symb, tracked) \<in> set (openPositions l)"
    and live: "livePositions ex = Inr positions"
    and gone: "reportedClosed positions symb"
    and history: "tradeHistory ex symb = Inr trades"
    and order: "newest_first trades"
    and numbers: "isValidNumber (entryPrice tracked)" "0 \<le> quantity tracked"
      "\<forall>t\<in>set trades. isValidNumber (t_execPrice t)"
  shows "let c = closedAtNow now (closedPositionDataOf now symb tracked trades);
             l' = checkPosition now ex positions (symb, tracked) l;
             closing = filter (closes symb tracked) trades
         in closedPositions l' = closedPositions l @ [c] \<and>
            position.truncate c = tracked \<and>
            (closing = [] \<longrightarrow> exitPrice c = entryPrice tracked) \<and>
            (closing \<noteq> [] \<longrightarrow>
               exitPrice c = t_execPrice (hd closing) \<and>
               (\<forall>t\<in>set closing. t_execTime t \<le> t_execTime (hd closing))) \<and>
            (direction tracked = ''LONG'' \<longrightarrow>
               pnl c = (exitPrice c - entryPrice tracked) * quantity tracked) \<and>
            (direction tracked = ''SHORT'' \<longrightarrow>
               pnl c = (entryPrice tracked - exitPrice c) * quantity tracked) \<and>
            map_of (openPositions l') symb = None \<and>
            filter (\<lambda>e. fst e \<noteq> symb) (openPositions l') =
              filter (\<lambda>e. fst e \<noteq> symb) (openPositions l) \<and>
            totalTrades (getStatistics l') = totalTrades (getStatistics l) + 1 \<and>
            map_of (openPositions (checkPositions now ex l)) symb = None \<and>
            c \<in> set (closedPositions (checkPositions now ex l)) \<and>
            totalTrades (getStatistics (checkPositions now ex l)) =
              totalTrades (getStatistics l) +
              int (length (filter (\<lambda>e. closedThisTick ex positions (fst e)) (openPositions l)))"
proof -
  define c where "c = closedAtNow now (closedPositionDataOf now symb tracked trades)"
  define l' where "l' = checkPosition now ex positions (symb, tracked) l"
  define closing where "closing = filter (closes symb tracked) trades"
  have this_tick: "closedThisTick ex positions symb"
    using gone history by (simp add: closedThisTick_def)
  have appended_record: "closureOf now ex (symb, tracked) = c"
    using history by (simp add: closureOf_def tradesOf_def c_def)
  have appended: "closedPositions l' = closedPositions l @ [c]"
    using this_tick appended_record by (simp add: l'_def checkPosition_closed_eq)
  have opened: "openPositions l' = AList.delete symb (openPositions l)"
    using this_tick by (simp add: l'_def checkPosition_open_eq)
  have same: "position.truncate c = tracked"
    by (simp add: c_def closed_record_fields)
  have exit_none: "closing = [] \<longrightarrow> exitPrice c = entryPrice tracked"
    by (simp add: c_def closing_def exit_price_cases)
  have exit_some: "closing \<noteq> [] \<longrightarrow>
      exitPrice c = t_execPrice (hd closing) \<and>
      (\<forall>t\<in>set closing. t_execTime t \<le> t_execTime (hd closing))"
  proof
    assume "closing \<noteq> []"
    then obtain t rest where first: "filter (closes symb tracked) trades = t # rest"
      by (cases closing) (auto simp: closing_def)
    have "\<forall>t'\<in>set closing. t_execTime t' \<le> t_execTime t"
      using newest_first_head [OF order first] by (auto simp: closing_def)
    with first show "exitPrice c = t_execPrice (hd closing) \<and>
        (\<forall>t\<in>set closing. t_execTime t \<le> t_execTime (hd closing))"
      by (simp add: c_def closing_def exit_price_cases)
  qed
  have exit_valid: "isValidNumber (exitPrice c)"
  proof (cases closing)
    case Nil
    with exit_none numbers(1) show ?thesis by simp
  next
    case (Cons t rest)
    then have "t \<in> set trades"
      using filter_is_subset [of "closes symb tracked" trades]
      by (auto simp: closing_def intro: list.set_intros(1))
    moreover from Cons exit_some have "exitPrice c = t_execPrice t" by simp
    ultimately show ?thesis using numbers(3) by simp
  qed
  have profit: "pnl c = calculatePnL (entryPrice tracked) (exitPrice c) (quantity tracked) (direction tracked)"
    by (simp add: c_def closed_record_fields)
  have long: "direction tracked = ''LONG'' \<longrightarrow>
      pnl c = (exitPrice c - entryPrice tracked) * quantity tracked"
    using numbers(1,2) exit_valid by (auto simp: profit calculatePnL_def isValidNumber_def)
  have short: "direction tracked = ''SHORT'' \<longrightarrow>
      pnl c = (entryPrice tracked - exitPrice c) * quantity tracked"
    using numbers(1,2) exit_valid by (auto simp: profit calculatePnL_def isValidNumber_def)
  have removed: "map_of (openPositions l') symb = None"
    by (simp add: opened map_of_delete_same)
  have others: "filter (\<lambda>e. fst e \<noteq> symb) (openPositions l') =
      filter (\<lambda>e. fst e \<noteq> symb) (openPositions l)"
    by (auto simp: opened AList.delete_eq intro!: filter_cong)
  have counted: "totalTrades (getStatistics l') = totalTrades (getStatistics l) + 1"
    by (simp add: totalTrades_length appended)
  have tick_removed: "map_of (openPositions (checkPositions now ex l)) symb = None"
    using this_tick
      map_of_filter_key [where P = "\<lambda>k. \<not> closedThisTick ex positions k" and k = symb
        and al = "openPositions l"]
    by (simp add: checkPositions_eq(1) [OF live])
  have tick_appended: "c \<in> set (closedPositions (checkPositions now ex l))"
    using this_tick tracked appended_record by (force simp: checkPositions_eq(2) [OF live])
  have tick_counted: "totalTrades (getStatistics (checkPositions now ex l)) =
      totalTrades (getStatistics l) +
      int (length (filter (\<lambda>e. closedThisTick ex positions (fst e)) (openPositions l)))"
    by (simp add: totalTrades_length checkPositions_eq(2) [OF live])
  from appended same exit_none exit_some long short removed others counted
    tick_removed tick_appended tick_counted
  show ?thesis
    unfolding Let_def c_def [symmetric] l'_def [symmetric] closing_def [symmetric]
    by blast
qed


theorem reconciliation_closes_witness:
  "(''X'', tracked_x) \<in> set (openPositions ledger_x) \<and> livePositions view_x = Inr [] \<and>
   reportedClosed [] ''X'' \<and> tradeHistory view_x ''X'' = Inr trades_x \<and> newest_first trades_x \<and>
   isValidNumber (entryPrice tracked_x) \<and> 0 \<le> quantity tracked_x \<and>
   list_all (\<lambda>t. isValidNumber (t_execPrice t)) trades_x \<and>
   direction tracked_x = ''LONG'' \<and>
   closedPositions (checkPosition 61000 view_x [] (''X'', tracked_x) ledger_x) = [closed_x] \<and>
   exitPrice closed_x = 100.5 \<and>
   pnl closed_x = (exitPrice closed_x - entryPrice tracked_x) * quantity tracked_x \<and>
   map_of (openPositions (checkPositions 61000 view_x ledger_x)) ''X'' = None \<and>
   totalTrades (getStatistics (checkPosition 61000 view_x [] (''X'', tracked_x) ledger_x)) =
     totalTrades (getStatistics ledger_x) + 1"
proof -
  have given: "(''X'', tracked_x) \<in> set (openPositions ledger_x)" "livePositions view_x = Inr []"
      "reportedClosed [] ''X''" "tradeHistory view_x ''X'' = Inr trades_x" "newest_first trades_x"
      "isValidNumber (entryPrice tracked_x)" "0 \<le> quantity tracked_x"
      "\<forall>t\<in>set trades_x. isValidNumber (t_execPrice t)"
    by (simp_all add: ledger_x_def view_x_def reportedClosed_def trades_x_def newest_first_def
        isValidNumber_def tracked_x_def)
  have long: "direction tracked_x = ''LONG''"
    by (simp add: tracked_x_def)
  have appended: "closedAtNow 61000 (closedPositionDataOf 61000 ''X'' tracked_x trades_x) = closed_x"
    by (simp add: tracked_x_def trades_x_def closed_x_def ledger_eval)
  have before: "closedPositions ledger_x = []"
    by (simp add: ledger_x_def)
  have price: "exitPrice closed_x = 100.5"
    by (simp add: closed_x_def)
  note closed_facts = reconciliation_closes [OF given, of 61000, unfolded Let_def appended before]
  from closed_facts long have "closedPositions (checkPosition 61000 view_x [] (''X'', tracked_x) ledger_x) = [closed_x]"
    and "pnl closed_x = (exitPrice closed_x - entryPrice tracked_x) * quantity tracked_x"
    and "map_of (openPositions (checkPositions 61000 view_x ledger_x)) ''X'' = None"
    and "totalTrades (getStatistics (checkPosition 61000 view_x [] (''X'', tracked_x) ledger_x)) =
      totalTrades (getStatistics ledger_x) + 1"
    by simp_all
  with given long price show ?thesis
    by (simp add: list_all_iff)
qed

section \<open>The history, operation by operation\<close>

lemma closure_x: "closureOf 61000 view_x (''X'', tracked_x) = closed_x"
  by (simp add: closureOf_def tradesOf_def view_x_def tracked_x_def trades_x_def closed_x_def
      ledger_eval)

text \<open>
  Claim C9, amended. The history of closed positions only grows at its end, except at the
  daily reset, and each operation of the service appends exactly this:
  \<^verbatim>\<open>addOpenPosition\<close>, \<^verbatim>\<open>removeOpenPosition\<close>, \<^verbatim>\<open>updatePositionData\<close>,
  \<^verbatim>\<open>startMonitoring\<close> and \<^verbatim>\<open>stopMonitoring\<close> nothing; \<^verbatim>\<open>addClosedPosition\<close> exactly
  one record, its argument stamped with the time of closing; \<^verbatim>\<open>handlePositionClosed\<close>
  exactly one record, built from the tracked position and the trades, when the query of
  the trade history answers, and nothing when it throws; \<^verbatim>\<open>checkPositions\<close> exactly one
  record for each tracked position the tick closes, in map order, when the query of the
  live positions answers, and nothing when it throws. So none of these operations changes
  or removes a record in the history. \<^verbatim>\<open>resetDailyStatistics\<close> empties the history. What
  an operation does to the open positions does not depend on the history: a closed
  position does not become open again.
\<close>

theorem history_append_only:
  "closedPositions (run_op (AddOpenPosition now pd) l) = closedPositions l \<and>
   closedPositions (run_op (RemoveOpenPosition symb) l) = closedPositions l \<and>
   closedPositions (run_op (UpdatePositionData symb ep) l) = closedPositions l \<and>
   closedPositions (run_op StartMonitoring l) = closedPositions l \<and>
   closedPositions (run_op StopMonitoring l) = closedPositions l \<and>
   closedPositions (run_op (AddClosedPosition now cd) l) = closedPositions l @ [closedAtNow now cd] \<and>
   closedPositions (run_op (HandlePositionClosed now (Inr trades) symb tracked) l) =
     closedPositions l @ [closedAtNow now (closedPositionDataOf now symb tracked trades)] \<and>
   closedPositions (run_op (HandlePositionClosed now (Inl message) symb tracked) l) =
     closedPositions l \<and>
   (livePositions ex = Inr positions \<longrightarrow>
      closedPositions (run_op (CheckPositions now ex) l) =
        closedPositions l @
          map (closureOf now ex)
            (filter (\<lambda>e. closedThisTick ex positions (fst e)) (openPositions l))) \<and>
   (livePositions ex = Inl message \<longrightarrow>
      closedPositions (run_op (CheckPositions now ex) l) = closedPositions l) \<and>
   closedPositions (run_op ResetDailyStatistics l) = [] \<and>
   openPositions (run_op op (l\<lparr>closedPositions := cs\<rparr>)) = openPositions (run_op op l)"
proof (intro conjI impI)
  show "closedPositions (run_op (AddOpenPosition now pd) l) = closedPositions l"
    by (simp add: addOpenPosition_def)
  show "closedPositions (run_op (RemoveOpenPosition symb) l) = closedPositions l"
    by (simp add: removeOpenPosition_closed)
  show "closedPositions (run_op (UpdatePositionData symb ep) l) = closedPositions l"
    by (simp add: updatePositionData_def)
  show "closedPositions (run_op StartMonitoring l) = closedPositions l"
    by (simp add: startMonitoring_def)
  show "closedPositions (run_op StopMonitoring l) = closedPositions l"
    by (simp add: stopMonitoring_def)
  show "closedPositions (run_op (AddClosedPosition now cd) l) = closedPositions l @ [closedAtNow now cd]"
    by (simp add: addClosedPosition_def)
  show "closedPositions (run_op (HandlePositionClosed now (Inr trades) symb tracked) l) =
     closedPositions l @ [closedAtNow now (closedPositionDataOf now symb tracked trades)]"
    by (simp add: handlePositionClosed_closed)
  show "closedPositions (run_op (HandlePositionClosed now (Inl message) symb tracked) l) =
     closedPositions l"
    by (simp add: handlePositionClosed_closed)
  show "closedPositions (run_op ResetDailyStatistics l) = []"
    by (simp add: resetDailyStatistics_def)
  show "openPositions (run_op op (l\<lparr>closedPositions := cs\<rparr>)) = openPositions (run_op op l)"
    by (rule run_op_history_free)
next
  assume "livePositions ex = Inr positions"
  then show "closedPositions (run_op (CheckPositions now ex) l) =
        closedPositions l @
          map (closureOf now ex)
            (filter (\<lambda>e. closedThisTick ex positions (fst e)) (openPositions l))"
    by (simp add: checkPositions_eq(2))
next
  assume "livePositions ex = Inl message"
  then show "closedPositions (run_op (CheckPositions now ex) l) = closedPositions l"
    by (simp add: checkPositions_def)
qed

text \<open>
  The claim as stated fails twice: the daily reset turns a history of one record into the
  empty history, and one monitoring tick over two positions the exchange has closed
  appends two records.
\<close>

theorem history_cleared_counterexample:
  "closedPositions ledger_after_x = [closed_x] \<and>
   closedPositions (run_op ResetDailyStatistics ledger_after_x) = [] \<and>
   closedPositions ledger_xy = [] \<and>
   length (closedPositions (run_op (CheckPositions 61000 view_none) ledger_xy)) = 2"
  by (simp add: ledger_after_x_def resetDailyStatistics_def tick_xy) (simp add: ledger_xy_def)

theorem history_append_only_witness:
  "livePositions view_x = Inr [] \<and>
   closedPositions ledger_x = [] \<and>
   closedPositions (run_op (CheckPositions 61000 view_x) ledger_x) = [closed_x] \<and>
   closedPositions (run_op (HandlePositionClosed 61000 (Inr trades_x) ''X'' tracked_x) ledger_x) =
     [closed_x] \<and>
   closedPositions (run_op (HandlePositionClosed 61000 (Inl ''timeout'') ''X'' tracked_x) ledger_x) = [] \<and>
   openPositions (run_op (CheckPositions 61000 view_x) (ledger_x\<lparr>closedPositions := [closed_x]\<rparr>)) = []"
proof -
  have live: "livePositions view_x = Inr []"
    by (simp add: view_x_def)
  have closed: "filter (\<lambda>e. closedThisTick view_x [] (fst e)) (openPositions ledger_x) =
      [(''X'', tracked_x)]"
    by (simp add: closedThisTick_def reportedClosed_def view_x_def ledger_x_def)
  have empty: "closedPositions ledger_x = []"
    by (simp add: ledger_x_def)
  have record_x: "closedAtNow 61000 (closedPositionDataOf 61000 ''X'' tracked_x trades_x) = closed_x"
    using closure_x by (simp add: closureOf_def tradesOf_def view_x_def)
  have step: "openPositions (run_op (CheckPositions 61000 view_x) ledger_x) = []"
    by (simp add: tick_x ledger_after_x_def)
  note facts = history_append_only [where op = "CheckPositions 61000 view_x" and l = ledger_x
      and cs = "[closed_x]" and ex = view_x and positions = "[]" and now = 61000
      and trades = trades_x and symb = "''X''" and tracked = tracked_x and message = "''timeout''"]
  from facts live
  have tick: "closedPositions (run_op (CheckPositions 61000 view_x) ledger_x) =
      closedPositions ledger_x @
        map (closureOf 61000 view_x)
          (filter (\<lambda>e. closedThisTick view_x [] (fst e)) (openPositions ledger_x))"
    by blast
  from facts
  have visit: "closedPositions (run_op (HandlePositionClosed 61000 (Inr trades_x) ''X'' tracked_x) ledger_x) =
      closedPositions ledger_x @ [closedAtNow 61000 (closedPositionDataOf 61000 ''X'' tracked_x trades_x)]"
    and thrown: "closedPositions (run_op (HandlePositionClosed 61000 (Inl ''timeout'') ''X'' tracked_x) ledger_x) =
      closedPositions ledger_x"
    and free: "openPositions (run_op (CheckPositions 61000 view_x) (ledger_x\<lparr>closedPositions := [closed_x]\<rparr>)) =
      openPositions (run_op (CheckPositions 61000 view_x) ledger_x)"
    by blast+
  from tick have "closedPositions (run_op (CheckPositions 61000 view_x) ledger_x) = [closed_x]"
    by (simp only: closed empty closure_x list.map append_Nil)
  moreover from visit have "closedPositions (run_op (HandlePositionClosed 61000 (Inr trades_x) ''X'' tracked_x) ledger_x) =
      [closed_x]"
    by (simp only: record_x empty append_Nil)
  moreover from thrown have "closedPositions (run_op (HandlePositionClosed 61000 (Inl ''timeout'') ''X'' tracked_x) ledger_x) = []"
    by (simp only: empty)
  moreover from free step have "openPositions (run_op (CheckPositions 61000 view_x) (ledger_x\<lparr>closedPositions := [closed_x]\<rparr>)) = []"
    by (rule trans)
  ultimately show ?thesis
    using live empty by blast
qed

section \<open>Opening a position\<close>

lemma placeOrders_protection_failure:
  assumes leverage: "setLeverage (sg_symbol sg) (risk_leverage cfg) (leverageOutcome ex) = Inr ok"
    and entry: "openMarketOrder (sg_symbol sg) (entrySide (sg_direction sg)) (pp_quantity pp)
        (getPositionIdx cfg (sg_direction sg)) (orderOutcome ex) = Inr entryId"
    and protection:
      "setTakeProfit (sg_symbol sg) (entrySide (sg_direction sg)) (pp_takeProfit pp) (pp_quantity pp)
         (getPositionIdx cfg (sg_direction sg)) (hasSetTradingStop ex) (takeProfitOutcome ex) = Inl msg \<or>
       (setTakeProfit (sg_symbol sg) (entrySide (sg_direction sg)) (pp_takeProfit pp) (pp_quantity pp)
          (getPositionIdx cfg (sg_direction sg)) (hasSetTradingStop ex) (takeProfitOutcome ex) = Inr tpId \<and>
        setStopLoss (sg_symbol sg) (entrySide (sg_direction sg)) (pp_stopLoss pp) (pp_quantity pp)
          (getPositionIdx cfg (sg_direction sg)) (hasSetTradingStop ex) (stopLossOutcome ex) = Inl msg)"
  shows "fst (placeOrders cfg now ex sg pp b) = Inl (ExchangeError msg)"
    and "positionService (snd (placeOrders cfg now ex sg pp b)) = positionService b"
    and "stat_totalTrades (stats (snd (placeOrders cfg now ex sg pp b))) = stat_totalTrades (stats b)"
    and "stat_dailyTrades (stats (snd (placeOrders cfg now ex sg pp b))) = stat_dailyTrades (stats b)"
    and "SubmitMarketOrder (sg_symbol sg) (entrySide (sg_direction sg)) (pp_quantity pp)
           (getPositionIdx cfg (sg_direction sg)) \<in> set (calls (snd (placeOrders cfg now ex sg pp b)))"
  using assms
  by (auto simp: placeOrders_def Let_def request_def)

lemma openPosition_sized:
  assumes "usdtBalance ex = Inr balance" and "currentPrice ex (sg_symbol sg) = Inr price"
    and "symbolInfoOf ex (sg_symbol sg) = Inr info"
    and "calculatePositionParameters cfg balance price (sg_direction sg) info = Inr pp"
    and "hasSufficientBalance balance (pp_requiredMargin pp)"
    and "\<not> trading_dryRun cfg"
  shows "openPosition cfg now ex sg b =
           placeOrders cfg now ex sg pp
             (request (GetSymbolInfo (sg_symbol sg))
               (request (GetCurrentPrice (sg_symbol sg))
                 ((request GetUSDTBalance b)
                    \<lparr>stats := (stats (request GetUSDTBalance b))\<lparr>stat_currentBalance := balance\<rparr>\<rparr>)))"
  using assms
  by (simp add: openPosition_def sizeAndOpen_def Let_def)

text \<open>
  Claim C1, amended. When the leverage step and the market entry order both succeed and
  the placement of the take profit or of the stop loss then fails, \<^verbatim>\<open>openPosition\<close>
  inserts no position into the ledger: the ledger is as it was and neither trade counter
  moves, although the entry order has been sent. The failure is not swallowed: the error
  of the failing step is thrown on to the caller, as the same kind of error as any other
  exchange failure and with that step's message; no error of a kind of its own carries
  the entry order id.
\<close>

theorem protection_failure_untracked:
  assumes sized: "usdtBalance ex = Inr balance" "currentPrice ex (sg_symbol sg) = Inr price"
      "symbolInfoOf ex (sg_symbol sg) = Inr info"
      "calculatePositionParameters cfg balance price (sg_direction sg) info = Inr pp"
      "hasSufficientBalance balance (pp_requiredMargin pp)"
    and live: "\<not> trading_dryRun cfg"
    and leverage: "setLeverage (sg_symbol sg) (risk_leverage cfg) (leverageOutcome ex) = Inr ok"
    and entry: "openMarketOrder (sg_symbol sg) (entrySide (sg_direction sg)) (pp_quantity pp)
        (getPositionIdx cfg (sg_direction sg)) (orderOutcome ex) = Inr entryId"
    and protection:
      "setTakeProfit (sg_symbol sg) (entrySide (sg_direction sg)) (pp_takeProfit pp) (pp_quantity pp)
         (getPositionIdx cfg (sg_direction sg)) (hasSetTradingStop ex) (takeProfitOutcome ex) = Inl msg \<or>
       (setTakeProfit (sg_symbol sg) (entrySide (sg_direction sg)) (pp_takeProfit pp) (pp_quantity pp)
          (getPositionIdx cfg (sg_direction sg)) (hasSetTradingStop ex) (takeProfitOutcome ex) = Inr tpId \<and>
        setStopLoss (sg_symbol sg) (entrySide (sg_direction sg)) (pp_stopLoss pp) (pp_quantity pp)
          (getPositionIdx cfg (sg_direction sg)) (hasSetTradingStop ex) (stopLossOutcome ex) = Inl msg)"
  shows "fst (openPosition cfg now ex sg b) = Inl (ExchangeError msg) \<and>
         positionService (snd (openPosition cfg now ex sg b)) = positionService b \<and>
         stat_totalTrades (stats (snd (openPosition cfg now ex sg b))) = stat_totalTrades (stats b) \<and>
         stat_dailyTrades (stats (snd (openPosition cfg now ex sg b))) = stat_dailyTrades (stats b) \<and>
         SubmitMarketOrder (sg_symbol sg) (entrySide (sg_direction sg)) (pp_quantity pp)
           (getPositionIdx cfg (sg_direction sg)) \<in> set (calls (snd (openPosition cfg now ex sg b)))"
  unfolding openPosition_sized [OF sized live]
  using placeOrders_protection_failure [OF leverage entry protection]
  by (simp add: request_def)

lemma refused_take_profit_run:
  "openPosition default_config 0 take_profit_refused ada_long fresh_bot =
     (Inl (ExchangeError ''Failed to set Take Profit: params error''),
      fresh_bot\<lparr>calls := [GetUSDTBalance, GetCurrentPrice ''ADAUSDT'', GetSymbolInfo ''ADAUSDT'',
                            SetLeverage ''ADAUSDT'' 20, SubmitMarketOrder ''ADAUSDT'' ''Buy'' 83 0,
                            SetTakeProfit ''ADAUSDT'' 0 100.5]\<rparr>)"
proof -
  have answers: "usdtBalance take_profit_refused = Inr 1000"
      "currentPrice take_profit_refused (sg_symbol ada_long) = Inr 100"
      "symbolInfoOf take_profit_refused (sg_symbol ada_long) = Inr unit_lots"
    by (simp_all add: take_profit_refused_def calm_exchange_def)
  have sizing: "calculatePositionParameters default_config 1000 100 (sg_direction ada_long) unit_lots =
      Inr ada_params"
    using ada_sizing by (simp add: ada_long_def)
  have margin: "hasSufficientBalance 1000 (pp_requiredMargin ada_params)"
    by (simp add: hasSufficientBalance_def isValidNumber_def ada_params_def)
  have live: "\<not> trading_dryRun default_config"
    by (simp add: default_config_def)
  show ?thesis
    unfolding openPosition_sized [OF answers sizing margin live]
    by (simp add: placeOrders_def Let_def request_def take_profit_refused_def calm_exchange_def
        accepted_def refused_def ada_long_def ada_params_def default_config_def fresh_bot_def
        setLeverage_def setLeverage_try_def openMarketOrder_def setTakeProfit_def entrySide_def
        getPositionIdx_def toUpperCase_def upper_char_def)
qed


text \<open>
  The claim as stated asks for exactly one inserted position. With an exchange that accepts
  the leverage and the entry order and refuses the take profit, the ledger holds none.
\<close>

theorem protection_failure_counterexample:
  "setLeverage ''ADAUSDT'' 20 (leverageOutcome take_profit_refused) = Inr True \<and>
   openMarketOrder ''ADAUSDT'' ''Buy'' 83 0 (orderOutcome take_profit_refused) = Inr (Some ''E1'') \<and>
   fst (openPosition default_config 0 take_profit_refused ada_long fresh_bot) =
     Inl (ExchangeError ''Failed to set Take Profit: params error'') \<and>
   openPositions (positionService fresh_bot) = [] \<and>
   openPositions (positionService (snd (openPosition default_config 0 take_profit_refused ada_long fresh_bot))) = [] \<and>
   SubmitMarketOrder ''ADAUSDT'' ''Buy'' 83 0 \<in>
     set (calls (snd (openPosition default_config 0 take_profit_refused ada_long fresh_bot)))"
  by (simp add: refused_take_profit_run)
     (simp add: take_profit_refused_def calm_exchange_def accepted_def fresh_bot_def
        newPositionService_def setLeverage_def setLeverage_try_def openMarketOrder_def)

theorem protection_failure_untracked_witness:
  "usdtBalance stop_loss_refused = Inr 1000 \<and>
   currentPrice stop_loss_refused (sg_symbol ada_long) = Inr 100 \<and>
   symbolInfoOf stop_loss_refused (sg_symbol ada_long) = Inr unit_lots \<and>
   calculatePositionParameters default_config 1000 100 (sg_direction ada_long) unit_lots = Inr ada_params \<and>
   hasSufficientBalance 1000 (pp_requiredMargin ada_params) \<and>
   \<not> trading_dryRun default_config \<and>
   setLeverage (sg_symbol ada_long) (risk_leverage default_config) (leverageOutcome stop_loss_refused) = Inr True \<and>
   openMarketOrder (sg_symbol ada_long) (entrySide (sg_direction ada_long)) (pp_quantity ada_params)
     (getPositionIdx default_config (sg_direction ada_long)) (orderOutcome stop_loss_refused) = Inr (Some ''E1'') \<and>
   setTakeProfit (sg_symbol ada_long) (entrySide (sg_direction ada_long)) (pp_takeProfit ada_params)
     (pp_quantity ada_params) (getPositionIdx default_config (sg_direction ada_long))
     (hasSetTradingStop stop_loss_refused) (takeProfitOutcome stop_loss_refused) = Inr ''E1'' \<and>
   setStopLoss (sg_symbol ada_long) (entrySide (sg_direction ada_long)) (pp_stopLoss ada_params)
     (pp_quantity ada_params) (getPositionIdx default_config (sg_direction ada_long))
     (hasSetTradingStop stop_loss_refused) (stopLossOutcome stop_loss_refused) =
       Inl ''Failed to set Stop Loss: params error'' \<and>
   fst (openPosition default_config 0 stop_loss_refused ada_long fresh_bot) =
     Inl (ExchangeError ''Failed to set Stop Loss: params error'') \<and>
   positionService (snd (openPosition default_config 0 stop_loss_refused ada_long fresh_bot)) =
     newPositionService"
proof -
  have answers: "usdtBalance stop_loss_refused = Inr 1000"
      "currentPrice stop_loss_refused (sg_symbol ada_long) = Inr 100"
      "symbolInfoOf stop_loss_refused (sg_symbol ada_long) = Inr unit_lots"
    by (simp_all add: stop_loss_refused_def calm_exchange_def)
  have sizing: "calculatePositionParameters default_config 1000 100 (sg_direction ada_long) unit_lots =
      Inr ada_params"
    using ada_sizing by (simp add: ada_long_def)
  have margin: "hasSufficientBalance 1000 (pp_requiredMargin ada_params)"
    by (simp add: hasSufficientBalance_def isValidNumber_def ada_params_def)
  have live: "\<not> trading_dryRun default_config"
    by (simp add: default_config_def)
  have leverage: "setLeverage (sg_symbol ada_long) (risk_leverage default_config)
      (leverageOutcome stop_loss_refused) = Inr True"
    by (simp add: stop_loss_refused_def calm_exchange_def accepted_def setLeverage_def
        setLeverage_try_def)
  have entry: "openMarketOrder (sg_symbol ada_long) (entrySide (sg_direction ada_long))
      (pp_quantity ada_params) (getPositionIdx default_config (sg_direction ada_long))
      (orderOutcome stop_loss_refused) = Inr (Some ''E1'')"
    by (simp add: stop_loss_refused_def calm_exchange_def accepted_def openMarketOrder_def)
  have target: "setTakeProfit (sg_symbol ada_long) (entrySide (sg_direction ada_long))
      (pp_takeProfit ada_params) (pp_quantity ada_params)
      (getPositionIdx default_config (sg_direction ada_long))
      (hasSetTradingStop stop_loss_refused) (takeProfitOutcome stop_loss_refused) = Inr ''E1''"
    by (simp add: stop_loss_refused_def calm_exchange_def accepted_def setTakeProfit_def
        orderId_or_def)
  have stop: "setStopLoss (sg_symbol ada_long) (entrySide (sg_direction ada_long))
      (pp_stopLoss ada_params) (pp_quantity ada_params)
      (getPositionIdx default_config (sg_direction ada_long))
      (hasSetTradingStop stop_loss_refused) (stopLossOutcome stop_loss_refused) =
        Inl ''Failed to set Stop Loss: params error''"
    by (simp add: stop_loss_refused_def calm_exchange_def refused_def setStopLoss_def)
  from target stop have protection:
    "setTakeProfit (sg_symbol ada_long) (entrySide (sg_direction ada_long))
       (pp_takeProfit ada_params) (pp_quantity ada_params)
       (getPositionIdx default_config (sg_direction ada_long))
       (hasSetTradingStop stop_loss_refused) (takeProfitOutcome stop_loss_refused) =
         Inl ''Failed to set Stop Loss: params error'' \<or>
     (setTakeProfit (sg_symbol ada_long) (entrySide (sg_direction ada_long))
        (pp_takeProfit ada_params) (pp_quantity ada_params)
        (getPositionIdx default_config (sg_direction ada_long))
        (hasSetTradingStop stop_loss_refused) (takeProfitOutcome stop_loss_refused) = Inr ''E1'' \<and>
      setStopLoss (sg_symbol ada_long) (entrySide (sg_direction ada_long))
        (pp_stopLoss ada_params) (pp_quantity ada_params)
        (getPositionIdx default_config (sg_direction ada_long))
        (hasSetTradingStop stop_loss_refused) (stopLossOutcome stop_loss_refused) =
          Inl ''Failed to set Stop Loss: params error'')"
    by blast
  have start: "positionService fresh_bot = newPositionService"
    by (simp add: fresh_bot_def)
  from protection_failure_untracked [OF answers sizing margin live leverage entry protection,
      of 0 fresh_bot] start
  have "fst (openPosition default_config 0 stop_loss_refused ada_long fresh_bot) =
      Inl (ExchangeError ''Failed to set Stop Loss: params error'') \<and>
    positionService (snd (openPosition default_config 0 stop_loss_refused ada_long fresh_bot)) =
      newPositionService"
    by simp
  with answers sizing margin live leverage entry target stop show ?thesis
    by blast
qed

section \<open>A leverage request refused for its time stamp\<close>

text \<open>
  The run of \<^verbatim>\<open>openPosition\<close> against the exchange that rejects the leverage request for
  its time stamp: the request is taken for a success, the orders go out, the position is
  tracked, and the call ends in the error of step 7.
\<close>

lemma stale_run:
  "openPosition default_config 0 stale_exchange ada_long fresh_bot =
     (Inl (TypeError ''Cannot read properties of undefined (reading replace)''),
      countTrade (track 0 (positionDataOf ada_long ada_params (Some ''E1'') ''E1'' ''E1'')
        (fresh_bot\<lparr>calls := [GetUSDTBalance, GetCurrentPrice ''ADAUSDT'', GetSymbolInfo ''ADAUSDT'',
                              SetLeverage ''ADAUSDT'' 20, SubmitMarketOrder ''ADAUSDT'' ''Buy'' 83 0,
                              SetTakeProfit ''ADAUSDT'' 0 100.5, SetStopLoss ''ADAUSDT'' 0 99.7]\<rparr>)))"
proof -
  have answers: "usdtBalance stale_exchange = Inr 1000"
      "currentPrice stale_exchange (sg_symbol ada_long) = Inr 100"
      "symbolInfoOf stale_exchange (sg_symbol ada_long) = Inr unit_lots"
    by (simp_all add: stale_exchange_def calm_exchange_def)
  have sizing: "calculatePositionParameters default_config 1000 100 (sg_direction ada_long) unit_lots =
      Inr ada_params"
    using ada_sizing by (simp add: ada_long_def)
  have margin: "hasSufficientBalance 1000 (pp_requiredMargin ada_params)"
    by (simp add: hasSufficientBalance_def isValidNumber_def ada_params_def)
  have live: "\<not> trading_dryRun default_config"
    by (simp add: default_config_def)
  have accepted_anyway: "setLeverage (sg_symbol ada_long) (risk_leverage default_config)
      (leverageOutcome stale_exchange) = Inr True"
    by (simp add: setLeverage_iff stale_exchange_def calm_exchange_def stale_def
        mentionsNotModified_def)
  show ?thesis
    unfolding openPosition_sized [OF answers sizing margin live]
    by (simp add: placeOrders_def Let_def request_def accepted_anyway)
       (simp add: Let_def request_def stale_exchange_def calm_exchange_def accepted_def ada_long_def ada_params_def
        default_config_def fresh_bot_def openMarketOrder_def setTakeProfit_def setStopLoss_def
        orderId_or_def entrySide_def getPositionIdx_def toUpperCase_def upper_char_def
        formatPositionOpenedMessage_def countTrade_def track_def positionDataOf_def)
qed

text \<open>
  Claim C7. Setting the leverage is idempotent where errors are concerned: a call whose
  response says that the leverage already has the requested value returns success, so two
  calls with the same value both succeed; and any other response with a return code that
  is not zero is an error that stops the opening before any order is placed. The code
  keeps the first half. It breaks the second: its \<^verbatim>\<open>catch\<close> looks for the digits 110043
  anywhere in the message of the error the \<^verbatim>\<open>try\<close> block has just thrown, so the
  exchange's rejection of a request for its time stamp, return code 10002, whose message
  quotes a time stamp with these digits in it, is taken for "already set": the call
  returns success, the market order is sent and the position is tracked.
\<close>

theorem stale_reply_accepted:
  "retCode stale \<noteq> 0 \<and> \<not> alreadySet stale \<and>
   setLeverage ''ADAUSDT'' 20 (Inr stale) = Inr True \<and>
   SubmitMarketOrder ''ADAUSDT'' ''Buy'' 83 0 \<in>
     set (calls (snd (openPosition default_config 0 stale_exchange ada_long fresh_bot))) \<and>
   map fst (openPositions (positionService
     (snd (openPosition default_config 0 stale_exchange ada_long fresh_bot)))) = [''ADAUSDT'']"
proof -
  have reply: "retCode stale \<noteq> 0" "\<not> alreadySet stale"
    by (simp_all add: stale_def alreadySet_def)
  have success: "setLeverage ''ADAUSDT'' 20 (Inr stale) = Inr True"
    by (simp add: setLeverage_iff stale_def mentionsNotModified_def)
  have run: "SubmitMarketOrder ''ADAUSDT'' ''Buy'' 83 0 \<in>
       set (calls (snd (openPosition default_config 0 stale_exchange ada_long fresh_bot)))"
    "map fst (openPositions (positionService
       (snd (openPosition default_config 0 stale_exchange ada_long fresh_bot)))) = [''ADAUSDT'']"
    unfolding stale_run
    by (simp_all add: countTrade_def track_def addOpenPosition_def positionDataOf_def
        fresh_bot_def newPositionService_def ada_long_def)
  from reply success run show ?thesis
    by blast
qed

theorem stale_reply_accepted_witness:
  "setLeverage ''ADAUSDT'' 20 (Inr stale) \<noteq> Inl (''Failed to set leverage: '' @ retMsg stale) \<and>
   filter is_order (calls (snd (openPosition default_config 0 stale_exchange ada_long fresh_bot))) \<noteq> []"
proof -
  from stale_reply_accepted
  have success: "setLeverage ''ADAUSDT'' 20 (Inr stale) = Inr True"
    and sent: "SubmitMarketOrder ''ADAUSDT'' ''Buy'' 83 0 \<in>
      set (calls (snd (openPosition default_config 0 stale_exchange ada_long fresh_bot)))"
    by blast+
  from sent have "SubmitMarketOrder ''ADAUSDT'' ''Buy'' 83 0 \<in>
      set (filter is_order (calls (snd (openPosition default_config 0 stale_exchange ada_long fresh_bot))))"
    by simp
  then have "filter is_order (calls (snd (openPosition default_config 0 stale_exchange ada_long fresh_bot))) \<noteq> []"
    by (metis empty_iff empty_set)
  with success show ?thesis
    by simp
qed

section \<open>The whole tick, and the branches of opening that succeed\<close>

text \<open>
  A whole tick of \<^verbatim>\<open>checkPositions\<close>, when the query of the live positions answers:
  the positions closed in this tick leave the open map, all others stay in their order,
  and the history gains one record for each position closed, in map order.
\<close>

theorem checkPositions_tick:
  assumes "livePositions ex = Inr positions"
  shows "openPositions (checkPositions now ex l) =
           filter (\<lambda>x. \<not> closedThisTick ex positions (fst x)) (openPositions l) \<and>
         closedPositions (checkPositions now ex l) =
           closedPositions l @
             map (closureOf now ex)
               (filter (\<lambda>e. closedThisTick ex positions (fst e)) (openPositions l))"
  using checkPositions_eq [OF assms] by blast

theorem checkPositions_tick_witness:
  "livePositions view_x = Inr [] \<and>
   openPositions (checkPositions 61000 view_x ledger_x) = [] \<and>
   closedPositions (checkPositions 61000 view_x ledger_x) = [closureOf 61000 view_x (''X'', tracked_x)]"
proof -
  have live: "livePositions view_x = Inr []"
    by (simp add: view_x_def)
  have closed: "closedThisTick view_x [] ''X''"
    by (simp add: closedThisTick_def reportedClosed_def view_x_def)
  from checkPositions_tick [OF live, of 61000 ledger_x] closed live show ?thesis
    by (simp add: ledger_x_def)
qed

text \<open>
  When the leverage, the entry order and both protective orders of the live branch
  succeed, \<^verbatim>\<open>openPosition\<close> stores exactly the one position of the signal, under its
  symbol and with the id of the entry order, and both trade counters go up by one. The
  call then throws the \<^verbatim>\<open>TypeError\<close> of step 7: the position stays tracked and counted,
  and no message request is sent.
\<close>

theorem openPosition_tracks_once:
  assumes sized: "usdtBalance ex = Inr balance" "currentPrice ex (sg_symbol sg) = Inr price"
      "symbolInfoOf ex (sg_symbol sg) = Inr info"
      "calculatePositionParameters cfg balance price (sg_direction sg) info = Inr pp"
      "hasSufficientBalance balance (pp_requiredMargin pp)"
    and live: "\<not> trading_dryRun cfg"
    and leverage: "setLeverage (sg_symbol sg) (risk_leverage cfg) (leverageOutcome ex) = Inr ok"
    and entry: "openMarketOrder (sg_symbol sg) (entrySide (sg_direction sg)) (pp_quantity pp)
        (getPositionIdx cfg (sg_direction sg)) (orderOutcome ex) = Inr entryId"
    and target: "setTakeProfit (sg_symbol sg) (entrySide (sg_direction sg)) (pp_takeProfit pp)
        (pp_quantity pp) (getPositionIdx cfg (sg_direction sg)) (hasSetTradingStop ex)
        (takeProfitOutcome ex) = Inr tpId"
    and stop: "setStopLoss (sg_symbol sg) (entrySide (sg_direction sg)) (pp_stopLoss pp)
        (pp_quantity pp) (getPositionIdx cfg (sg_direction sg)) (hasSetTradingStop ex)
        (stopLossOutcome ex) = Inr slId"
  shows "positionService (snd (openPosition cfg now ex sg b)) =
           addOpenPosition now (positionDataOf sg pp entryId tpId slId) (positionService b) \<and>
         map_of (openPositions (positionService (snd (openPosition cfg now ex sg b)))) (sg_symbol sg) =
           Some (trackedPositionOf now (positionDataOf sg pp entryId tpId slId)) \<and>
         orderId (trackedPositionOf now (positionDataOf sg pp entryId tpId slId)) = entryId \<and>
         stat_totalTrades (stats (snd (openPosition cfg now ex sg b))) = stat_totalTrades (stats b) + 1 \<and>
         stat_dailyTrades (stats (snd (openPosition cfg now ex sg b))) = stat_dailyTrades (stats b) + 1 \<and>
         fst (openPosition cfg now ex sg b) =
           Inl (TypeError ''Cannot read properties of undefined (reading replace)'') \<and>
         calls (snd (openPosition cfg now ex sg b)) =
           calls b @
           [GetUSDTBalance, GetCurrentPrice (sg_symbol sg), GetSymbolInfo (sg_symbol sg),
            SetLeverage (sg_symbol sg) (risk_leverage cfg),
            SubmitMarketOrder (sg_symbol sg) (entrySide (sg_direction sg)) (pp_quantity pp)
              (getPositionIdx cfg (sg_direction sg))] @
           (if hasSetTradingStop ex
            then [SetTakeProfit (sg_symbol sg) (getPositionIdx cfg (sg_direction sg)) (pp_takeProfit pp),
                  SetStopLoss (sg_symbol sg) (getPositionIdx cfg (sg_direction sg)) (pp_stopLoss pp)]
            else [])"
  unfolding openPosition_sized [OF sized live]
  using leverage entry target stop
  by (simp add: placeOrders_def Let_def request_def countTrade_def track_def addOpenPosition_def
      AList.update_conv' positionDataOf_def trackedPositionOf_def formatPositionOpenedMessage_def
      split: sum.splits)

theorem openPosition_tracks_once_witness:
  "usdtBalance calm_exchange = Inr 1000 \<and>
   currentPrice calm_exchange (sg_symbol ada_long) = Inr 100 \<and>
   symbolInfoOf calm_exchange (sg_symbol ada_long) = Inr unit_lots \<and>
   calculatePositionParameters default_config 1000 100 (sg_direction ada_long) unit_lots = Inr ada_params \<and>
   hasSufficientBalance 1000 (pp_requiredMargin ada_params) \<and>
   \<not> trading_dryRun default_config \<and>
   fst (openPosition default_config 0 calm_exchange ada_long fresh_bot) =
     Inl (TypeError ''Cannot read properties of undefined (reading replace)'') \<and>
   map (\<lambda>e. (fst e, orderId (snd e)))
     (openPositions (positionService (snd (openPosition default_config 0 calm_exchange ada_long fresh_bot)))) =
     [(''ADAUSDT'', Some ''E1'')] \<and>
   stat_dailyTrades (stats (snd (openPosition default_config 0 calm_exchange ada_long fresh_bot))) = 1"
proof -
  have answers: "usdtBalance calm_exchange = Inr 1000"
      "currentPrice calm_exchange (sg_symbol ada_long) = Inr 100"
      "symbolInfoOf calm_exchange (sg_symbol ada_long) = Inr unit_lots"
    by (simp_all add: calm_exchange_def)
  have sizing: "calculatePositionParameters default_config 1000 100 (sg_direction ada_long) unit_lots =
      Inr ada_params"
    using ada_sizing by (simp add: ada_long_def)
  have margin: "hasSufficientBalance 1000 (pp_requiredMargin ada_params)"
    by (simp add: hasSufficientBalance_def isValidNumber_def ada_params_def)
  have live: "\<not> trading_dryRun default_config"
    by (simp add: default_config_def)
  have leverage: "setLeverage (sg_symbol ada_long) (risk_leverage default_config)
      (leverageOutcome calm_exchange) = Inr True"
    by (simp add: calm_exchange_def accepted_def setLeverage_def setLeverage_try_def)
  have entry: "openMarketOrder (sg_symbol ada_long) (entrySide (sg_direction ada_long))
      (pp_quantity ada_params) (getPositionIdx default_config (sg_direction ada_long))
      (orderOutcome calm_exchange) = Inr (Some ''E1'')"
    by (simp add: calm_exchange_def accepted_def openMarketOrder_def)
  have target: "setTakeProfit (sg_symbol ada_long) (entrySide (sg_direction ada_long))
      (pp_takeProfit ada_params) (pp_quantity ada_params)
      (getPositionIdx default_config (sg_direction ada_long))
      (hasSetTradingStop calm_exchange) (takeProfitOutcome calm_exchange) = Inr ''E1''"
    by (simp add: calm_exchange_def accepted_def setTakeProfit_def orderId_or_def)
  have stop: "setStopLoss (sg_symbol ada_long) (entrySide (sg_direction ada_long))
      (pp_stopLoss ada_params) (pp_quantity ada_params)
      (getPositionIdx default_config (sg_direction ada_long))
      (hasSetTradingStop calm_exchange) (stopLossOutcome calm_exchange) = Inr ''E1''"
    by (simp add: calm_exchange_def accepted_def setStopLoss_def orderId_or_def)
  have start: "positionService fresh_bot = newPositionService" "stat_dailyTrades (stats fresh_bot) = 0"
    by (simp_all add: fresh_bot_def)
  from openPosition_tracks_once [OF answers sizing margin live leverage entry target stop,
      of 0 fresh_bot] start
  have "fst (openPosition default_config 0 calm_exchange ada_long fresh_bot) =
      Inl (TypeError ''Cannot read properties of undefined (reading replace)'') \<and>
    map (\<lambda>e. (fst e, orderId (snd e)))
      (openPositions (positionService (snd (openPosition default_config 0 calm_exchange ada_long fresh_bot)))) =
      [(''ADAUSDT'', Some ''E1'')] \<and>
    stat_dailyTrades (stats (snd (openPosition default_config 0 calm_exchange ada_long fresh_bot))) = 1"
    by (simp add: addOpenPosition_def newPositionService_def positionDataOf_def
        trackedPositionOf_def ada_long_def)
  with answers sizing margin live show ?thesis
    by blast
qed

text \<open>
  In a dry run \<^verbatim>\<open>openPosition\<close> sends nothing but its three queries, succeeds, and
  tracks a position with made-up order ids, counting it as a trade.
\<close>

theorem openPosition_dry_run:
  assumes sized: "usdtBalance ex = Inr balance" "currentPrice ex (sg_symbol sg) = Inr price"
      "symbolInfoOf ex (sg_symbol sg) = Inr info"
      "calculatePositionParameters cfg balance price (sg_direction sg) info = Inr pp"
      "hasSufficientBalance balance (pp_requiredMargin pp)"
    and dry: "trading_dryRun cfg"
  shows "fst (openPosition cfg now ex sg b) = Inr () \<and>
         calls (snd (openPosition cfg now ex sg b)) =
           calls b @ [GetUSDTBalance, GetCurrentPrice (sg_symbol sg), GetSymbolInfo (sg_symbol sg)] \<and>
         positionService (snd (openPosition cfg now ex sg b)) =
           addOpenPosition now
             (positionDataOf sg pp (Some (''DRY_RUN_'' @ string_of_int now)) ''DRY_RUN_TP'' ''DRY_RUN_SL'')
             (positionService b) \<and>
         stat_totalTrades (stats (snd (openPosition cfg now ex sg b))) = stat_totalTrades (stats b) + 1 \<and>
         stat_dailyTrades (stats (snd (openPosition cfg now ex sg b))) = stat_dailyTrades (stats b) + 1"
  using sized dry
  by (simp add: openPosition_def sizeAndOpen_def simulateOrders_def Let_def request_def
      countTrade_def track_def)

theorem openPosition_dry_run_witness:
  "usdtBalance take_profit_refused = Inr 1000 \<and>
   currentPrice take_profit_refused (sg_symbol ada_long) = Inr 100 \<and>
   symbolInfoOf take_profit_refused (sg_symbol ada_long) = Inr unit_lots \<and>
   calculatePositionParameters dry_config 1000 100 (sg_direction ada_long) unit_lots = Inr ada_params \<and>
   hasSufficientBalance 1000 (pp_requiredMargin ada_params) \<and>
   trading_dryRun dry_config \<and>
   fst (openPosition dry_config 5 take_profit_refused ada_long fresh_bot) = Inr () \<and>
   calls (snd (openPosition dry_config 5 take_profit_refused ada_long fresh_bot)) =
     [GetUSDTBalance, GetCurrentPrice ''ADAUSDT'', GetSymbolInfo ''ADAUSDT''] \<and>
   map (\<lambda>e. (fst e, orderId (snd e)))
     (openPositions (positionService (snd (openPosition dry_config 5 take_profit_refused ada_long fresh_bot)))) =
     [(''ADAUSDT'', Some ''DRY_RUN_5'')]"
proof -
  have answers: "usdtBalance take_profit_refused = Inr 1000"
      "currentPrice take_profit_refused (sg_symbol ada_long) = Inr 100"
      "symbolInfoOf take_profit_refused (sg_symbol ada_long) = Inr unit_lots"
    by (simp_all add: take_profit_refused_def calm_exchange_def)
  have sizing: "calculatePositionParameters dry_config 1000 100 (sg_direction ada_long) unit_lots =
      Inr ada_params"
    by (simp add: risk_eval dry_config_def default_config_def unit_lots_def ada_params_def
        ada_long_def roundQuantity_tick)
  have margin: "hasSufficientBalance 1000 (pp_requiredMargin ada_params)"
    by (simp add: hasSufficientBalance_def isValidNumber_def ada_params_def)
  have dry: "trading_dryRun dry_config"
    by (simp add: dry_config_def)
  have start: "positionService fresh_bot = newPositionService" "calls fresh_bot = []"
      "sg_symbol ada_long = ''ADAUSDT''"
    by (simp_all add: fresh_bot_def ada_long_def)
  from openPosition_dry_run [OF answers sizing margin dry, of 5 fresh_bot] start
  have "fst (openPosition dry_config 5 take_profit_refused ada_long fresh_bot) = Inr () \<and>
   calls (snd (openPosition dry_config 5 take_profit_refused ada_long fresh_bot)) =
     [GetUSDTBalance, GetCurrentPrice ''ADAUSDT'', GetSymbolInfo ''ADAUSDT''] \<and>
   map (\<lambda>e. (fst e, orderId (snd e)))
     (openPositions (positionService (snd (openPosition dry_config 5 take_profit_refused ada_long fresh_bot)))) =
     [(''ADAUSDT'', Some ''DRY_RUN_5'')]"
    by (simp add: addOpenPosition_def newPositionService_def positionDataOf_def
        trackedPositionOf_def string_of_int_def string_of_nat.simps digit_char_def)
  with answers sizing margin dry show ?thesis
    by blast
qed

end
